theory Spec2Isabelle
  imports Main "HOL-Library.Sublist" "HOL-Library.Multiset"
begin

section \<open>Thrown values\<close>

text \<open>
  What a \<^verbatim>\<open>throw\<close> carries: an \<^verbatim>\<open>Error\<close> object with its message, or some other
  value (a wallet extension rejects with plain objects), for which
  \<^verbatim>\<open>error instanceof Error\<close> is false. A function that can throw returns
  \<open>thrown + 'a\<close>, \<open>Inl\<close> for the throw.
\<close>

datatype thrown = Error string | NonError string

section \<open>Script registry (src/unnamed/part_005, lines 6-60)\<close>

text \<open>
  The \<^verbatim>\<open>TrackedScript\<close> interface. Numbers are JavaScript numbers holding integers
  (timestamps and satoshi amounts), modelled as \<open>int\<close>.
\<close>

record TrackedScript =
  script_id :: string
  scriptAddress :: string
  originalScript :: string
  compiledScript :: string
  createdAt :: int
  createdBy :: string
  fundingTxid :: string
  amount :: int
  isSpent :: bool

text \<open>
  What \<^verbatim>\<open>localStorage.getItem(TRACKED_SCRIPTS_KEY)\<close> can hold: nothing (the key is
  absent, \<^verbatim>\<open>null\<close>), a string that \<^verbatim>\<open>JSON.parse\<close> rejects (or the empty string,
  which is falsy), or the JSON array that \<^verbatim>\<open>saveTrackedScript\<close> and
  \<^verbatim>\<open>markScriptAsSpent\<close> write. \<^verbatim>\<open>JSON.stringify\<close> followed by \<^verbatim>\<open>JSON.parse\<close> gives
  back the same records (their fields are strings, integers and a boolean).
\<close>

datatype stored = Absent | Unparsable | Saved "TrackedScript list"

text \<open>
  The browser context: whether \<^verbatim>\<open>window\<close> is defined, and the item stored under the
  registry key.
\<close>

record world =
  window_defined :: bool
  tracked_item :: stored

definition getTrackedScripts :: "world \<Rightarrow> TrackedScript list" where
  "getTrackedScripts w =
     (if \<not> window_defined w then []
      else case tracked_item w of
             Absent \<Rightarrow> []
           | Unparsable \<Rightarrow> []
           | Saved scripts \<Rightarrow> scripts)"

definition saveTrackedScript :: "TrackedScript \<Rightarrow> world \<Rightarrow> world" where
  "saveTrackedScript script w =
     (if \<not> window_defined w then w
      else w\<lparr>tracked_item := Saved (getTrackedScripts w @ [script])\<rparr>)"

definition getTrackedScriptsByWallet :: "string \<Rightarrow> world \<Rightarrow> TrackedScript list" where
  "getTrackedScriptsByWallet walletAddress w =
     filter (\<lambda>script. createdBy script = walletAddress) (getTrackedScripts w)"

definition markScriptAsSpent :: "string \<Rightarrow> world \<Rightarrow> world" where
  "markScriptAsSpent addr w =
     (if \<not> window_defined w then w
      else w\<lparr>tracked_item :=
             Saved (map (\<lambda>script. if scriptAddress script = addr
                                  then script\<lparr>isSpent := True\<rparr> else script)
                        (getTrackedScripts w))\<rparr>)"

section \<open>UTXO selection (src/unnamed/part_005, lines 154-175)\<close>

text \<open>
  An unspent output as the Esplora API reports it; \<open>utxo_value\<close> is the field
  \<^verbatim>\<open>value\<close>, in satoshis.
\<close>

record utxo =
  txid :: string
  vout :: nat
  utxo_value :: int

record selection =
  selectedUtxos :: "utxo list"
  totalValue :: int

text \<open>
  \<^verbatim>\<open>[...utxos].sort((a, b) => b.value - a.value)\<close>: a stable sort, descending by value.
\<close>

definition sortedUtxos :: "utxo list \<Rightarrow> utxo list" where
  "sortedUtxos utxos = sort_key (\<lambda>u. - utxo_value u) utxos"

text \<open>
  The \<^verbatim>\<open>for\<close> loop of \<^verbatim>\<open>selectUtxos\<close>, with \<^verbatim>\<open>selectedUtxos\<close> and \<^verbatim>\<open>totalValue\<close> as
  accumulators; the \<^verbatim>\<open>break\<close> is the first branch.
\<close>

fun select_loop :: "int \<Rightarrow> utxo list \<Rightarrow> utxo list \<Rightarrow> int \<Rightarrow> utxo list \<times> int" where
  "select_loop targetAmount [] selected running = (selected, running)"
| "select_loop targetAmount (u # rest) selected running =
     (if running \<ge> targetAmount then (selected, running)
      else select_loop targetAmount rest (selected @ [u]) (running + utxo_value u))"

definition selectUtxos :: "utxo list \<Rightarrow> int \<Rightarrow> thrown + selection" where
  "selectUtxos utxos targetAmount =
     (case select_loop targetAmount (sortedUtxos utxos) [] 0 of
        (selected, running) \<Rightarrow>
          if running < targetAmount
          then Inl (Error ''Insufficient UTXOs to cover the target amount'')
          else Inr \<lparr>selectedUtxos = selected, totalValue = running\<rparr>)"

definition sum_values :: "utxo list \<Rightarrow> int" where
  "sum_values us = sum_list (map utxo_value us)"

section \<open>JavaScript strings, buffers and numbers\<close>

text \<open>
  A JavaScript string is a sequence of UTF-16 code units. The model covers the strings
  whose code units are all below 256: a \<open>char\<close> is one code unit, so \<open>length\<close> is
  \<^verbatim>\<open>.length\<close>, \<open>prefix p s\<close> is \<^verbatim>\<open>s.startsWith(p)\<close> and \<open>drop 2 s\<close> is
  \<^verbatim>\<open>s.slice(2)\<close>. A byte of a \<^verbatim>\<open>Buffer\<close> is a natural number below 256.
\<close>

type_synonym byte = nat

definition code_unit :: "char \<Rightarrow> nat" where
  "code_unit c = of_char c"

text \<open>\<^verbatim>\<open>/^\d+$/\<close>: one or more ASCII digits and nothing else.\<close>

definition is_digit :: "char \<Rightarrow> bool" where
  "is_digit c = (48 \<le> code_unit c \<and> code_unit c \<le> 57)"

definition all_digits :: "string \<Rightarrow> bool" where
  "all_digits s = (s \<noteq> [] \<and> list_all is_digit s)"

text \<open>
  \<^verbatim>\<open>parseInt\<close> on an all-digits string: its decimal value. (JavaScript holds the result
  in a double, exact up to \<open>2^53\<close>; the model is exact everywhere, and no statement below
  is about a value beyond \<open>2^32\<close>.)
\<close>

definition parseInt :: "string \<Rightarrow> int" where
  "parseInt s = foldl (\<lambda>acc c. 10 * acc + (int (code_unit c) - 48)) 0 s"

text \<open>
  \<^verbatim>\<open>Buffer.from(s, "hex")\<close>: pairs of hexadecimal digits are decoded from the left; the
  decoding stops, without an error, at the first pair that is not two hexadecimal digits,
  and a trailing single character is dropped.
\<close>

definition hex_value :: "char \<Rightarrow> nat option" where
  "hex_value c =
     (let n = code_unit c in
      if 48 \<le> n \<and> n \<le> 57 then Some (n - 48)
      else if 97 \<le> n \<and> n \<le> 102 then Some (n - 87)
      else if 65 \<le> n \<and> n \<le> 70 then Some (n - 55)
      else None)"

fun buffer_from_hex :: "string \<Rightarrow> byte list" where
  "buffer_from_hex (a # b # rest) =
     (case (hex_value a, hex_value b) of
        (Some h, Some l) \<Rightarrow> (16 * h + l) # buffer_from_hex rest
      | _ \<Rightarrow> [])"
| "buffer_from_hex _ = []"

text \<open>A string that is hexadecimal throughout: an even number of hexadecimal digits.\<close>

definition well_formed_hex :: "string \<Rightarrow> bool" where
  "well_formed_hex s = (even (length s) \<and> list_all (\<lambda>c. hex_value c \<noteq> None) s)"

text \<open>
  \<^verbatim>\<open>Buffer.from(s, "utf8")\<close> on a string of code units below 256: one byte below 128, two
  bytes from 128 on.
\<close>

definition buffer_from_utf8 :: "string \<Rightarrow> byte list" where
  "buffer_from_utf8 s =
     concat (map (\<lambda>c. let n = code_unit c in
                        if n < 128 then [n] else [192 + n div 64, 128 + n mod 64]) s)"

text \<open>
  \<^verbatim>\<open>ToInt32\<close>, which the operators \<^verbatim>\<open>&\<close> and \<^verbatim>\<open>>>\<close> apply to their left operand: the
  value modulo \<open>2^32\<close>, read as a signed 32-bit integer. On such an integer
  \<^verbatim>\<open>x & 0xff\<close> is \<open>x mod 256\<close> and \<^verbatim>\<open>x >> 8\<close> is \<open>x div 256\<close>.
\<close>

definition toInt32 :: "int \<Rightarrow> int" where
  "toInt32 v = (v + 2147483648) mod 4294967296 - 2147483648"

text \<open>
  \<^verbatim>\<open>script.number.encode\<close> of bitcoinjs-lib (module \<^verbatim>\<open>script_number\<close>), which both the
  compiler and the unlock builder call:
  \<^verbatim>\<open>
  function scriptNumSize(i) {
    return i > 0x7fffffff ? 5 : i > 0x7fffff ? 4 : i > 0x7fff ? 3 : i > 0x7f ? 2 : i > 0x00 ? 1 : 0;
  }
  function encode(_number) {
    let value = Math.abs(_number);
    const size = scriptNumSize(value);
    const buffer = Buffer.allocUnsafe(size);
    const negative = _number < 0;
    for (let i = 0; i < size; ++i) {
      buffer.writeUInt8(value & 0xff, i);
      value >>= 8;
    }
    if (buffer[size - 1] & 0x80) {
      buffer.writeUInt8(negative ? 0x80 : 0x00, size - 1);
    } else if (negative) {
      buffer[size - 1] |= 0x80;
    }
    return buffer;
  }
  \<close>
\<close>

definition scriptNumSize :: "int \<Rightarrow> nat" where
  "scriptNumSize i =
     (if i > 2147483647 then 5
      else if i > 8388607 then 4
      else if i > 32767 then 3
      else if i > 127 then 2
      else if i > 0 then 1
      else 0)"

fun encode_loop :: "nat \<Rightarrow> int \<Rightarrow> byte list" where
  "encode_loop 0 v = []"
| "encode_loop (Suc k) v = nat (toInt32 v mod 256) # encode_loop k (toInt32 v div 256)"

definition number_encode :: "int \<Rightarrow> byte list" where
  "number_encode n =
     (let buffer = encode_loop (scriptNumSize \<bar>n\<bar>) \<bar>n\<bar>;
          negative = n < 0
      in if buffer = [] then []
         else if last buffer \<ge> 128 then butlast buffer @ [if negative then 128 else 0]
         else if negative then butlast buffer @ [last buffer + 128]
         else buffer)"

section \<open>Script compiler (src/unnamed/part_005, lines 177-238)\<close>

text \<open>
  An entry of \<^verbatim>\<open>scriptElements\<close>: an opcode number or a buffer to push.
\<close>

datatype element = Opcode int | Data "byte list"

text \<open>
  The entries \<^verbatim>\<open>opcodes.OP_0\<close> and \<^verbatim>\<open>opcodes.OP_1\<close> of the bitcoinjs-lib table. The
  rest of the table is a parameter \<open>opcodes\<close> of the compiler: the code of a name, or
  \<open>None\<close> where \<^verbatim>\<open>opcodes[name]\<close> is \<^verbatim>\<open>undefined\<close>.
\<close>

definition OP_0 :: int where
  "OP_0 = 0"

definition OP_1 :: int where
  "OP_1 = 81"

text \<open>
  \<^verbatim>\<open>String.prototype.trim\<close>, for code units below 256: tab, line feed, vertical tab,
  form feed, carriage return, space and no-break space are white space.
\<close>

definition is_space :: "char \<Rightarrow> bool" where
  "is_space c = (code_unit c \<in> {9, 10, 11, 12, 13, 32, 160})"

definition trim :: "string \<Rightarrow> string" where
  "trim s = rev (dropWhile is_space (rev (dropWhile is_space s)))"

text \<open>\<^verbatim>\<open>scriptText.split("\n")\<close>.\<close>

fun split_lines :: "string \<Rightarrow> string list" where
  "split_lines [] = [[]]"
| "split_lines (c # cs) =
     (if code_unit c = 10 then [] # split_lines cs
      else case split_lines cs of
             l # ls \<Rightarrow> (c # l) # ls
           | [] \<Rightarrow> [[c]])"

definition source_lines :: "string \<Rightarrow> string list" where
  "source_lines scriptText =
     filter (\<lambda>line. line \<noteq> [] \<and> \<not> prefix ''//'' line) (map trim (split_lines scriptText))"

text \<open>
  The body of the loop over the lines: the elements one line pushes, or the error it
  throws. The branches are in the order of the source.
\<close>

definition parseLine :: "(string \<Rightarrow> int option) \<Rightarrow> string \<Rightarrow> thrown + element list" where
  "parseLine opcodes line =
     (if prefix ''OP_'' line then
        (case opcodes line of
           Some code \<Rightarrow> Inr [Opcode code]
         | None \<Rightarrow> Inl (Error (''Unknown opcode: '' @ line)))
      else if prefix ''0x'' line then
        (let hexData = drop 2 line in
         if length hexData mod 2 \<noteq> 0 then Inl (Error (''Invalid hex data: '' @ line))
         else Inr [Data (buffer_from_hex hexData)])
      else if all_digits line then
        (let num = parseInt line in
         if num \<ge> 1 \<and> num \<le> 16 then Inr [Opcode (OP_1 + num - 1)]
         else if num = 0 then Inr [Opcode OP_0]
         else Inr [Data (number_encode num)])
      else if length line > 0 then Inl (Error (''Cannot parse line: '' @ line))
      else Inr [])"

fun parse_lines :: "(string \<Rightarrow> int option) \<Rightarrow> string list \<Rightarrow> element list
                      \<Rightarrow> thrown + element list" where
  "parse_lines opcodes [] scriptElements = Inr scriptElements"
| "parse_lines opcodes (line # rest) scriptElements =
     (case parseLine opcodes line of
        Inl e \<Rightarrow> Inl e
      | Inr pushed \<Rightarrow> parse_lines opcodes rest (scriptElements @ pushed))"

text \<open>
  \<^verbatim>\<open>parseScript\<close>. The serialisation \<^verbatim>\<open>bitcoinScript.compile\<close> of the element list is a
  parameter.
\<close>

definition parseScript :: "(string \<Rightarrow> int option) \<Rightarrow> (element list \<Rightarrow> byte list) \<Rightarrow> string
                            \<Rightarrow> thrown + byte list" where
  "parseScript opcodes compile scriptText =
     (case parse_lines opcodes (source_lines scriptText) [] of
        Inl e \<Rightarrow> Inl e
      | Inr scriptElements \<Rightarrow> Inr (compile scriptElements))"

section \<open>Script numbers as the specification words them\<close>

text \<open>
  The minimal-length signed little-endian encoding: the magnitude's bytes, least
  significant first and without a leading zero byte; the sign lives in the high bit of the
  last byte, and a further byte is appended when the magnitude already uses that bit.
\<close>

fun magnitude_bytes :: "nat \<Rightarrow> byte list" where
  "magnitude_bytes n = (if n = 0 then [] else (n mod 256) # magnitude_bytes (n div 256))"

definition scriptnum_spec :: "int \<Rightarrow> byte list" where
  "scriptnum_spec n =
     (let m = magnitude_bytes (nat \<bar>n\<bar>) in
      if m = [] then []
      else if last m \<ge> 128 then m @ [if n < 0 then 128 else 0]
      else if n < 0 then butlast m @ [last m + 128]
      else m)"

declare magnitude_bytes.simps [simp del]

section \<open>External collaborators\<close>

text \<open>
  Template literals print an integer in decimal.
\<close>

fun show_nat :: "nat \<Rightarrow> string" where
  "show_nat n =
     (if n < 10 then [char_of (48 + n)]
      else show_nat (n div 10) @ [char_of (48 + n mod 10)])"

declare show_nat.simps [simp del]

definition show_int :: "int \<Rightarrow> string" where
  "show_int i = (if i < 0 then ''-'' @ show_nat (nat (- i)) else show_nat (nat i))"

text \<open>
  The outcome of a \<^verbatim>\<open>fetch\<close>: the promise rejects (or the body is not JSON), the response
  is not \<^verbatim>\<open>ok\<close> (status and body text), or it is \<^verbatim>\<open>ok\<close> with its decoded body.
\<close>

datatype 'a response = NetworkError thrown | HttpError int string | HttpOk 'a

text \<open>
  A partially signed transaction, as far as the builders look at it: per input the spent
  output, its locking script (\<^verbatim>\<open>witnessUtxo.script\<close>) and the optional
  \<^verbatim>\<open>witnessScript\<close>; the outputs as address and value; and the witness stack set on the
  script input, once it is finalised. Signatures are not part of the model.
\<close>

record psbt_input =
  prevout :: utxo
  prevout_script :: "byte list"
  witnessScript :: "byte list option"

record psbt =
  psbt_inputs :: "psbt_input list"
  psbt_outputs :: "(string \<times> int) list"
  finalScriptWitness :: "byte list list option"

definition new_psbt :: psbt where
  "new_psbt = \<lparr>psbt_inputs = [], psbt_outputs = [], finalScriptWitness = None\<rparr>"

definition addInput :: "psbt_input \<Rightarrow> psbt \<Rightarrow> psbt" where
  "addInput i p = p\<lparr>psbt_inputs := psbt_inputs p @ [i]\<rparr>"

definition addOutput :: "string \<Rightarrow> int \<Rightarrow> psbt \<Rightarrow> psbt" where
  "addOutput addr v p = p\<lparr>psbt_outputs := psbt_outputs p @ [(addr, v)]\<rparr>"

definition input_total :: "psbt \<Rightarrow> int" where
  "input_total p = sum_list (map (\<lambda>i. utxo_value (prevout i)) (psbt_inputs p))"

text \<open>The result of \<^verbatim>\<open>payments.p2wsh\<close>: the address, when one could be derived, and the
  output script.\<close>

record payment =
  pay_address :: "string option"
  pay_output :: "byte list"

text \<open>
  Everything outside the repository that the two builders call, as parameters:
  the bitcoinjs-lib opcode table, \<^verbatim>\<open>script.compile\<close> and \<^verbatim>\<open>payments.p2wsh\<close> (which may
  throw); the Esplora endpoints for an address's UTXOs, for a transaction (the
  \<^verbatim>\<open>scriptpubkey\<close> of each of its outputs, or \<open>None\<close> when the body has no \<^verbatim>\<open>vout\<close>) and
  for broadcasting; the answers the same endpoints give when the unlock builder's second
  assembly asks again; the wallet extension, absent or a signer that either throws or
  hands the transaction back signed; the wallet's public key; what finalising the script
  input and extracting the transaction do (\<open>Some\<close> is a throw); and the clock.
\<close>

record env =
  opcode_table :: "string \<Rightarrow> int option"
  script_compile :: "element list \<Rightarrow> byte list"
  p2wsh :: "byte list \<Rightarrow> thrown + payment"
  utxo_api :: "string \<Rightarrow> utxo list response"
  utxo_api_again :: "string \<Rightarrow> utxo list response"
  tx_api :: "string \<Rightarrow> string list option response"
  tx_api_again :: "string \<Rightarrow> string list option response"
  broadcast_api :: "psbt \<Rightarrow> string response"
  unisat :: "(psbt \<Rightarrow> thrown option) option"
  wallet_publicKey :: "string option"
  finalize_script_input :: "psbt \<Rightarrow> thrown option"
  extractTransaction :: "psbt \<Rightarrow> thrown option"
  date_now :: int

section \<open>API hooks (src/unnamed/part_006)\<close>

definition getUtxos :: "(string \<Rightarrow> utxo list response) \<Rightarrow> string \<Rightarrow> thrown + utxo list" where
  "getUtxos api address =
     (case api address of
        NetworkError e \<Rightarrow> Inl e
      | HttpError status errorText \<Rightarrow>
          Inl (Error (''Failed to fetch UTXOs: '' @ show_int status @ '' '' @ errorText))
      | HttpOk utxos \<Rightarrow> Inr (filter (\<lambda>u. utxo_value u \<ge> 546) utxos))"

definition pushTx :: "(psbt \<Rightarrow> string response) \<Rightarrow> psbt \<Rightarrow> thrown + string" where
  "pushTx api tx =
     (case api tx of
        NetworkError e \<Rightarrow> Inl e
      | HttpError status errorText \<Rightarrow>
          Inl (Error (''Failed to broadcast transaction: '' @ show_int status @ '' '' @ errorText))
      | HttpOk newTxid \<Rightarrow> Inr newTxid)"

text \<open>
  \<^verbatim>\<open>txData.vout[utxo.vout].scriptpubkey\<close>, decoded; \<open>None\<close> where the source finds
  \<^verbatim>\<open>!txData.vout || !txData.vout[utxo.vout]\<close>.
\<close>

definition output_script :: "string list option \<Rightarrow> nat \<Rightarrow> byte list option" where
  "output_script vouts i =
     (case vouts of
        None \<Rightarrow> None
      | Some vs \<Rightarrow> if i < length vs then Some (buffer_from_hex (vs ! i)) else None)"

section \<open>Funding transaction builder (src/unnamed/part_005, lines 240-438)\<close>

text \<open>
  The body of the loop over the selected UTXOs: the input it adds, or what its
  \<^verbatim>\<open>try\<close> block throws.
\<close>

definition resolve_input :: "(string \<Rightarrow> string list option response) \<Rightarrow> utxo \<Rightarrow> thrown + psbt_input" where
  "resolve_input fetch u =
     (case fetch (txid u) of
        NetworkError e \<Rightarrow> Inl e
      | HttpError status body \<Rightarrow>
          Inl (Error (''Failed to fetch transaction '' @ txid u @ '': '' @ show_int status))
      | HttpOk vouts \<Rightarrow>
          (case output_script vouts (vout u) of
             None \<Rightarrow> Inl (Error (''Output '' @ show_nat (vout u) @ '' not found in transaction ''
                                  @ txid u))
           | Some actualOutputScript \<Rightarrow>
               Inr \<lparr>prevout = u, prevout_script = actualOutputScript, witnessScript = None\<rparr>))"

fun add_inputs :: "(string \<Rightarrow> string list option response) \<Rightarrow> utxo list \<Rightarrow> psbt \<Rightarrow> thrown + psbt" where
  "add_inputs fetch [] p = Inr p"
| "add_inputs fetch (u # rest) p =
     (case resolve_input fetch u of
        Inl inputError \<Rightarrow>
          Inl (Error (''Failed to add UTXO '' @ txid u @ '':'' @ show_nat (vout u) @ '' - ''
                      @ (case inputError of Error m \<Rightarrow> m | NonError x \<Rightarrow> ''Unknown error'')))
      | Inr i \<Rightarrow> add_inputs fetch rest (addInput i p))"

text \<open>The \<^verbatim>\<open>catch\<close> block of \<^verbatim>\<open>createScriptTransaction\<close>: what it throws in the end.\<close>

definition funding_catch :: "thrown \<Rightarrow> thrown" where
  "funding_catch e =
     (case e of
        NonError x \<Rightarrow> e
      | Error m \<Rightarrow>
          if sublist ''Insufficient funds'' m
          then Error ''Insufficient funds. Make sure you have enough testnet Bitcoin plus fee.''
          else if sublist ''Unknown opcode'' m
          then Error (''Script parsing error: '' @ m)
          else if sublist ''Failed to fetch UTXOs'' m
          then Error ''Failed to fetch UTXOs. Check your internet connection and wallet address.''
          else if sublist ''Failed to broadcast'' m
          then Error ''Failed to broadcast transaction. The transaction may be invalid.''
          else e)"

text \<open>
  Steps 1 to 11 of the \<^verbatim>\<open>try\<close> block, up to and including the broadcast: the compiled
  script, the script address and the transaction id, or the first throw.
\<close>

definition funding_steps :: "env \<Rightarrow> bool \<Rightarrow> string \<Rightarrow> int \<Rightarrow> string
                              \<Rightarrow> thrown + (byte list \<times> string \<times> psbt \<times> string)" where
  "funding_steps e has_window scriptCode amt walletAddress =
     (case parseScript (opcode_table e) (script_compile e) scriptCode of
        Inl err \<Rightarrow> Inl err
      | Inr compiled \<Rightarrow>
     (case p2wsh e compiled of
        Inl err \<Rightarrow> Inl err
      | Inr pay \<Rightarrow>
     (case pay_address pay of
        None \<Rightarrow> Inl (Error ''Failed to generate script address'')
      | Some address \<Rightarrow>
          if address = [] then Inl (Error ''Failed to generate script address'')
          else
     (case getUtxos (utxo_api e) walletAddress of
        Inl err \<Rightarrow> Inl err
      | Inr utxos \<Rightarrow>
          if utxos = []
          then Inl (Error ''No UTXOs available. Make sure your wallet has testnet Bitcoin.'')
          else
            let estimatedFee = 1000;
                totalNeeded = amt + estimatedFee;
                totalAvailable = sum_values utxos
            in if totalAvailable < totalNeeded
               then Inl (Error (''Insufficient funds: have '' @ show_int totalAvailable
                                @ '', need '' @ show_int totalNeeded))
               else
     (case selectUtxos utxos totalNeeded of
        Inl err \<Rightarrow> Inl err
      | Inr sel \<Rightarrow>
          let changeAmount = totalValue sel - amt - estimatedFee in
     (case add_inputs (tx_api e) (selectedUtxos sel) new_psbt of
        Inl err \<Rightarrow> Inl err
      | Inr with_inputs \<Rightarrow>
          let with_script = addOutput address amt with_inputs;
              unsigned = (if changeAmount \<ge> 546
                          then addOutput walletAddress changeAmount with_script
                          else with_script)
          in if \<not> has_window then Inl (Error ''window is not defined'')
             else
     (case unisat e of
        None \<Rightarrow> Inl (Error ''UniSat wallet not available'')
      | Some signPsbt \<Rightarrow>
     (case signPsbt unsigned of
        Some err \<Rightarrow> Inl err
      | None \<Rightarrow>
     (case extractTransaction e unsigned of
        Some err \<Rightarrow> Inl err
      | None \<Rightarrow>
     (case pushTx (broadcast_api e) unsigned of
        Inl err \<Rightarrow> Inl err
      | Inr newTxid \<Rightarrow> Inr (compiled, address, unsigned, newTxid)))))))))))"

text \<open>\<^verbatim>\<open>compiledScript.toString("hex")\<close>.\<close>

definition hex_digit :: "nat \<Rightarrow> char" where
  "hex_digit d = (if d < 10 then char_of (48 + d) else char_of (87 + d))"

definition to_hex :: "byte list \<Rightarrow> string" where
  "to_hex bs = concat (map (\<lambda>b. [hex_digit (b div 16), hex_digit (b mod 16)]) bs)"

text \<open>
  \<^verbatim>\<open>createScriptTransaction\<close>: the value returned or the error thrown, and the browser
  context afterwards. Step 12 saves the tracked script; the \<^verbatim>\<open>catch\<close> block rewrites the
  error.
\<close>

definition createScriptTransaction :: "env \<Rightarrow> string \<Rightarrow> int \<Rightarrow> string \<Rightarrow> world
                                        \<Rightarrow> (thrown + (string \<times> string)) \<times> world" where
  "createScriptTransaction e scriptCode amt walletAddress w =
     (case funding_steps e (window_defined w) scriptCode amt walletAddress of
        Inl err \<Rightarrow> (Inl (funding_catch err), w)
      | Inr (compiled, address, tx, newTxid) \<Rightarrow>
          (Inr (newTxid, address),
           saveTrackedScript
             \<lparr>script_id = newTxid @ ''_0'',
              scriptAddress = address,
              originalScript = scriptCode,
              compiledScript = to_hex compiled,
              createdAt = date_now e,
              createdBy = walletAddress,
              fundingTxid = newTxid,
              amount = amt,
              isSpent = False\<rparr> w))"

section \<open>Unlock transaction builder (src/unnamed/part_008, lines 1135-1579)\<close>

record ScriptUtxo = TrackedScript +
  utxos :: "utxo list"
  balance :: int
  unlockTxid :: "string option"

definition estimatedFee :: int where
  "estimatedFee = 1500"

definition minRelayFee :: int where
  "minRelayFee = 300"

definition needsWalletSponsorship :: "int \<Rightarrow> bool" where
  "needsWalletSponsorship singleUtxoValue =
     (let actualMinFee = max estimatedFee minRelayFee;
          wouldBeOutput = singleUtxoValue - actualMinFee
      in singleUtxoValue < actualMinFee \<or> wouldBeOutput < 546)"

text \<open>
  The loop over the wallet's UTXOs (lines 1300-1330), with the transaction,
  \<^verbatim>\<open>totalInput\<close> and \<^verbatim>\<open>walletUtxosNeeded\<close> as accumulators. A rejected \<^verbatim>\<open>fetch\<close> is not
  caught here; a response that is not \<^verbatim>\<open>ok\<close> or lacks the output is skipped.
\<close>

fun sponsor_loop :: "(string \<Rightarrow> string list option response) \<Rightarrow> int \<Rightarrow> utxo list
                       \<Rightarrow> psbt \<Rightarrow> int \<Rightarrow> int \<Rightarrow> thrown + (psbt \<times> int \<times> int)" where
  "sponsor_loop fetch shortfall [] p totalInput walletUtxosNeeded =
     Inr (p, totalInput, walletUtxosNeeded)"
| "sponsor_loop fetch shortfall (walletUtxo # rest) p totalInput walletUtxosNeeded =
     (if walletUtxosNeeded \<ge> shortfall then Inr (p, totalInput, walletUtxosNeeded)
      else case fetch (txid walletUtxo) of
             NetworkError err \<Rightarrow> Inl err
           | HttpError status body \<Rightarrow>
               sponsor_loop fetch shortfall rest p totalInput walletUtxosNeeded
           | HttpOk vouts \<Rightarrow>
               (case output_script vouts (vout walletUtxo) of
                  None \<Rightarrow> sponsor_loop fetch shortfall rest p totalInput walletUtxosNeeded
                | Some actualOutputScript \<Rightarrow>
                    sponsor_loop fetch shortfall rest
                      (addInput \<lparr>prevout = walletUtxo, prevout_script = actualOutputScript,
                                 witnessScript = None\<rparr> p)
                      (totalInput + utxo_value walletUtxo)
                      (walletUtxosNeeded + utxo_value walletUtxo)))"

text \<open>Lines 1281-1335: the sponsorship decision and what it adds to the transaction.\<close>

definition sponsor :: "env \<Rightarrow> string \<Rightarrow> int \<Rightarrow> psbt \<Rightarrow> thrown + (psbt \<times> int \<times> int)" where
  "sponsor e walletAddress singleUtxoValue p =
     (if needsWalletSponsorship singleUtxoValue then
        (case getUtxos (utxo_api e) walletAddress of
           Inl err \<Rightarrow> Inl err
         | Inr walletUtxos \<Rightarrow>
             if walletUtxos = []
             then Inl (Error ''No wallet UTXOs available to cover transaction fee'')
             else
               let shortfall = max estimatedFee minRelayFee + 546 in
               (case sponsor_loop (tx_api e) shortfall walletUtxos p singleUtxoValue 0 of
                  Inl err \<Rightarrow> Inl err
                | Inr (p', totalInput, walletUtxosNeeded) \<Rightarrow>
                    if totalInput < singleUtxoValue + estimatedFee
                    then Inl (Error (''Insufficient funds: need ''
                                     @ show_int (singleUtxoValue + estimatedFee)
                                     @ '' sats, have '' @ show_int totalInput @ '' sats''))
                    else Inr (p', totalInput, walletUtxosNeeded)))
      else Inr (p, singleUtxoValue, 0))"

text \<open>Lines 1337-1351, and again lines 1497-1509.\<close>

definition final_output :: "int \<Rightarrow> int \<Rightarrow> int \<Rightarrow> int" where
  "final_output singleUtxoValue totalInput walletUtxosNeeded =
     (let actualFee = max estimatedFee minRelayFee in
      if walletUtxosNeeded > 0
      then (let walletChange = totalInput - singleUtxoValue - actualFee
            in singleUtxoValue + max 0 walletChange)
      else singleUtxoValue - actualFee)"

text \<open>
  Lines 1355-1361, and lines 1518-1524 where each message starts with \<^verbatim>\<open>Fallback: \<close>:
  what the two checks throw.
\<close>

definition check_amounts :: "string \<Rightarrow> int \<Rightarrow> int \<Rightarrow> thrown option" where
  "check_amounts label finalOutput usedFee =
     (if finalOutput < 546
      then Some (Error (label @ ''Output too small ('' @ show_int finalOutput
                        @ '' sats). Need at least 546 sats for dust threshold.''))
      else if usedFee < minRelayFee
      then Some (Error (label @ ''Fee too low ('' @ show_int usedFee
                        @ '' sats). Network requires minimum '' @ show_int minRelayFee
                        @ '' sats.''))
      else None)"

text \<open>Lines 1261-1367: the transaction of the primary path and \<^verbatim>\<open>walletUtxosNeeded\<close>.\<close>

definition primary_assembly :: "env \<Rightarrow> string \<Rightarrow> utxo \<Rightarrow> byte list \<Rightarrow> payment
                                  \<Rightarrow> thrown + (psbt \<times> int)" where
  "primary_assembly e walletAddress utxoToUnlock redeem pay =
     (let singleUtxoValue = utxo_value utxoToUnlock;
          p0 = addInput \<lparr>prevout = utxoToUnlock, prevout_script = pay_output pay,
                          witnessScript = Some redeem\<rparr> new_psbt
      in case sponsor e walletAddress singleUtxoValue p0 of
           Inl err \<Rightarrow> Inl err
         | Inr (p1, totalInput, walletUtxosNeeded) \<Rightarrow>
             let finalOutput = final_output singleUtxoValue totalInput walletUtxosNeeded;
                 actualUsedFee = totalInput - finalOutput
             in case check_amounts [] finalOutput actualUsedFee of
                  Some err \<Rightarrow> Inl err
                | None \<Rightarrow> Inr (addOutput walletAddress finalOutput p1, walletUtxosNeeded))"

text \<open>Lines 1370-1388: one item of the witness data, as bytes.\<close>

definition witnessItem :: "string \<Rightarrow> byte list" where
  "witnessItem item =
     (if prefix ''0x'' item then buffer_from_hex (drop 2 item)
      else if item = ''OP_TRUE'' \<or> item = ''1'' then [1]
      else if item = ''OP_FALSE'' \<or> item = ''0'' then []
      else if all_digits item then number_encode (parseInt item)
      else buffer_from_utf8 item)"

definition scriptNeedsSignatures :: "string \<Rightarrow> bool" where
  "scriptNeedsSignatures source =
     (sublist ''OP_CHECKSIG'' source \<or> sublist ''OP_CHECKMULTISIG'' source
      \<or> sublist ''OP_CHECKDATASIG'' source)"

text \<open>Lines 1390-1434: signing when needed, then the witness of the script input.\<close>

definition sign_and_finalize :: "env \<Rightarrow> bool \<Rightarrow> string \<Rightarrow> int \<Rightarrow> psbt \<Rightarrow> byte list list
                                   \<Rightarrow> thrown + psbt" where
  "sign_and_finalize e has_window source walletUtxosNeeded p witnessStack =
     (let needsWalletSigning = walletUtxosNeeded > 0 \<or> scriptNeedsSignatures source;
          signed =
            (if needsWalletSigning then
               (if \<not> has_window then Inl (Error ''window is not defined'')
                else case unisat e of
                       None \<Rightarrow> Inl (Error ''UniSat wallet not available'')
                     | Some signPsbt \<Rightarrow>
                         (case signPsbt p of Some err \<Rightarrow> Inl err | None \<Rightarrow> Inr p))
             else Inr p)
      in case signed of
           Inl err \<Rightarrow> Inl err
         | Inr finalPsbt \<Rightarrow>
             (case finalize_script_input e finalPsbt of
                Some inputError \<Rightarrow>
                  Inl (Error (''Failed to process script input: ''
                              @ (case inputError of Error m \<Rightarrow> m
                                                  | NonError x \<Rightarrow> ''Unknown error'')))
              | None \<Rightarrow> Inr (finalPsbt\<lparr>finalScriptWitness := Some witnessStack\<rparr>)))"

text \<open>
  The loop of the fallback (lines 1464-1493): every failure inside its \<^verbatim>\<open>try\<close> is
  swallowed, so it never throws.
\<close>

fun fallback_loop :: "(string \<Rightarrow> string list option response) \<Rightarrow> int \<Rightarrow> utxo list
                        \<Rightarrow> psbt \<Rightarrow> int \<Rightarrow> psbt \<times> int" where
  "fallback_loop fetch shortfall [] p addedWalletValue = (p, addedWalletValue)"
| "fallback_loop fetch shortfall (walletUtxo # rest) p addedWalletValue =
     (if addedWalletValue \<ge> shortfall then (p, addedWalletValue)
      else case fetch (txid walletUtxo) of
             NetworkError err \<Rightarrow> fallback_loop fetch shortfall rest p addedWalletValue
           | HttpError status body \<Rightarrow> fallback_loop fetch shortfall rest p addedWalletValue
           | HttpOk vouts \<Rightarrow>
               (case output_script vouts (vout walletUtxo) of
                  None \<Rightarrow> fallback_loop fetch shortfall rest p addedWalletValue
                | Some actualOutputScript \<Rightarrow>
                    fallback_loop fetch shortfall rest
                      (addInput \<lparr>prevout = walletUtxo, prevout_script = actualOutputScript,
                                 witnessScript = None\<rparr> p)
                      (addedWalletValue + utxo_value walletUtxo)))"

text \<open>
  Lines 1444-1494: the inputs of the second assembly, entered when extracting the first
  transaction throws. The wallet's UTXOs are fetched again.
\<close>

definition fallback_inputs :: "env \<Rightarrow> string \<Rightarrow> utxo \<Rightarrow> payment \<Rightarrow> int \<Rightarrow> thrown + psbt" where
  "fallback_inputs e walletAddress utxoToUnlock pay walletUtxosNeeded =
     (let singleUtxoValue = utxo_value utxoToUnlock;
          simple0 = addInput \<lparr>prevout = utxoToUnlock, prevout_script = pay_output pay,
                               witnessScript = None\<rparr> new_psbt
      in if walletUtxosNeeded > 0 then
           (case getUtxos (utxo_api_again e) walletAddress of
              Inl err \<Rightarrow> Inl err
            | Inr walletUtxos \<Rightarrow>
                let shortfall = estimatedFee - singleUtxoValue + 546
                in Inr (fst (fallback_loop (tx_api_again e) shortfall walletUtxos simple0 0)))
         else Inr simple0)"

text \<open>Lines 1496-1538: its output, its checks, the witness and the extraction.\<close>

definition fallback_assembly :: "env \<Rightarrow> string \<Rightarrow> utxo \<Rightarrow> payment \<Rightarrow> int \<Rightarrow> byte list list
                                   \<Rightarrow> thrown + psbt" where
  "fallback_assembly e walletAddress utxoToUnlock pay walletUtxosNeeded witnessStack =
     (case fallback_inputs e walletAddress utxoToUnlock pay walletUtxosNeeded of
        Inl err \<Rightarrow> Inl err
      | Inr simplePsbt \<Rightarrow>
          let singleUtxoValue = utxo_value utxoToUnlock;
              finalOutput = final_output singleUtxoValue (singleUtxoValue + walletUtxosNeeded)
                              walletUtxosNeeded;
              fallbackTotalInput = input_total simplePsbt;
              fallbackActualFee = fallbackTotalInput - finalOutput
          in case check_amounts ''Fallback: '' finalOutput fallbackActualFee of
               Some err \<Rightarrow> Inl err
             | None \<Rightarrow>
                 let finished = (addOutput walletAddress finalOutput simplePsbt)
                                  \<lparr>finalScriptWitness := Some witnessStack\<rparr>
                 in (case extractTransaction e finished of
                       Some err \<Rightarrow> Inl err
                     | None \<Rightarrow> Inr finished))"

text \<open>
  The \<^verbatim>\<open>try\<close> block of \<^verbatim>\<open>unlockScript\<close> up to the broadcast (lines 1240-1542): what
  \<^verbatim>\<open>pushTx\<close> returned or the first throw, and the transaction handed to \<^verbatim>\<open>pushTx\<close> when
  that call was reached.
\<close>

definition unlock_try :: "env \<Rightarrow> bool \<Rightarrow> string \<Rightarrow> ScriptUtxo \<Rightarrow> utxo \<Rightarrow> string list
                            \<Rightarrow> (thrown + string) \<times> psbt option" where
  "unlock_try e has_window walletAddress script utxoToUnlock witnessData =
     (case wallet_publicKey e of
        None \<Rightarrow> (Inl (Error ''Failed to get public key''), None)
      | Some publicKey \<Rightarrow>
          let redeem = buffer_from_hex (compiledScript script) in
          (case p2wsh e redeem of
             Inl err \<Rightarrow> (Inl err, None)
           | Inr pay \<Rightarrow>
               if pay_address pay = None \<or> pay_address pay = Some []
                  \<or> pay_address pay \<noteq> Some (scriptAddress script)
               then (Inl (Error ''Script address mismatch''), None)
               else
                 (case primary_assembly e walletAddress utxoToUnlock redeem pay of
                    Inl err \<Rightarrow> (Inl err, None)
                  | Inr (p, walletUtxosNeeded) \<Rightarrow>
                      let witnessStack = map witnessItem witnessData @ [redeem] in
                      (case sign_and_finalize e has_window (originalScript script)
                              walletUtxosNeeded p witnessStack of
                         Inl err \<Rightarrow> (Inl err, None)
                       | Inr finalPsbt \<Rightarrow>
                           (case (case extractTransaction e finalPsbt of
                                    None \<Rightarrow> Inr finalPsbt
                                  | Some extractError \<Rightarrow>
                                      fallback_assembly e walletAddress utxoToUnlock pay
                                        walletUtxosNeeded witnessStack) of
                              Inl err \<Rightarrow> (Inl err, None)
                            | Inr finalTx \<Rightarrow>
                                (pushTx (broadcast_api e) finalTx, Some finalTx))))))"

text \<open>
  \<^verbatim>\<open>unlockScript\<close> reports through toasts; the model returns what it reported, the
  transaction it handed to \<^verbatim>\<open>pushTx\<close>, if any, and the browser context afterwards.
\<close>

datatype outcome = WalletNotConnected | NoUtxosAtScript | UnlockFailed thrown | Unlocked string

record unlock_result =
  outcome :: outcome
  broadcast :: "psbt option"
  world_after :: world

definition unlockScript :: "env \<Rightarrow> string option \<Rightarrow> ScriptUtxo \<Rightarrow> string list \<Rightarrow> world
                              \<Rightarrow> unlock_result" where
  "unlockScript e wallet script witnessData w =
     (case wallet of
        None \<Rightarrow> \<lparr>outcome = WalletNotConnected, broadcast = None, world_after = w\<rparr>
      | Some walletAddress \<Rightarrow>
          if walletAddress = []
          then \<lparr>outcome = WalletNotConnected, broadcast = None, world_after = w\<rparr>
          else
            (case utxos script of
               [] \<Rightarrow> \<lparr>outcome = NoUtxosAtScript, broadcast = None, world_after = w\<rparr>
             | utxoToUnlock # others \<Rightarrow>
                 (case unlock_try e (window_defined w) walletAddress script utxoToUnlock
                         witnessData of
                    (Inl err, sent) \<Rightarrow>
                      \<lparr>outcome = UnlockFailed err, broadcast = sent, world_after = w\<rparr>
                  | (Inr newTxid, sent) \<Rightarrow>
                      \<lparr>outcome = Unlocked newTxid, broadcast = sent,
                       world_after = markScriptAsSpent (scriptAddress script) w\<rparr>)))"

section \<open>Vocabulary of the statements\<close>

text \<open>
  A wallet UTXO whose previous output the transaction endpoint resolves: the only kind
  the unlock builder adds as an input.
\<close>

definition resolvable :: "(string \<Rightarrow> string list option response) \<Rightarrow> utxo \<Rightarrow> bool" where
  "resolvable fetch u =
     (case fetch (txid u) of
        HttpOk vouts \<Rightarrow> output_script vouts (vout u) \<noteq> None
      | NetworkError err \<Rightarrow> False
      | HttpError status body \<Rightarrow> False)"

text \<open>The UTXOs a transaction spends, in input order.\<close>

definition spent_utxos :: "psbt \<Rightarrow> utxo list" where
  "spent_utxos p = map prevout (psbt_inputs p)"

section \<open>Sample data for the examples\<close>

text \<open>
  A wallet and a script, a registry holding the script's record, and collaborators that
  all succeed: the script address is always \<^verbatim>\<open>tb1qscript\<close>, every transaction lookup
  finds output 0, the signer signs, every broadcast is accepted with id \<^verbatim>\<open>u1\<close>.
\<close>

definition sample_utxo :: "string \<Rightarrow> int \<Rightarrow> utxo" where
  "sample_utxo t v = \<lparr>txid = t, vout = 0, utxo_value = v\<rparr>"

definition sample_record :: "string \<Rightarrow> string \<Rightarrow> bool \<Rightarrow> TrackedScript" where
  "sample_record ident addr spent =
     \<lparr>script_id = ident, scriptAddress = addr, originalScript = ''OP_TRUE'',
      compiledScript = ''51'', createdAt = 0, createdBy = ''tb1qwallet'',
      fundingTxid = ''f1'', amount = 5000, isSpent = spent\<rparr>"

definition sample_script :: "int \<Rightarrow> ScriptUtxo" where
  "sample_script v =
     \<lparr>script_id = ''f1_0'', scriptAddress = ''tb1qscript'', originalScript = ''OP_TRUE'',
      compiledScript = ''51'', createdAt = 0, createdBy = ''tb1qwallet'',
      fundingTxid = ''f1'', amount = 5000, isSpent = False,
      utxos = [sample_utxo ''f1'' v], balance = v, unlockTxid = None\<rparr>"

definition sample_world :: world where
  "sample_world =
     \<lparr>window_defined = True,
      tracked_item = Saved [sample_record ''f1_0'' ''tb1qscript'' False]\<rparr>"

definition sample_payment :: payment where
  "sample_payment = \<lparr>pay_address = Some ''tb1qscript'', pay_output = [0, 32, 81]\<rparr>"

definition sample_env :: "utxo list \<Rightarrow> env" where
  "sample_env wallet =
     \<lparr>opcode_table = map_of [(''OP_TRUE'', 81)],
      script_compile = (\<lambda>els. concat (map (\<lambda>el. case el of Opcode c \<Rightarrow> [nat c]
                                                        | Data d \<Rightarrow> length d # d) els)),
      p2wsh = (\<lambda>script. Inr sample_payment),
      utxo_api = (\<lambda>address. HttpOk wallet),
      utxo_api_again = (\<lambda>address. HttpOk wallet),
      tx_api = (\<lambda>t. HttpOk (Some [''0014ab''])),
      tx_api_again = (\<lambda>t. HttpOk (Some [''0014ab''])),
      broadcast_api = (\<lambda>tx. HttpOk ''u1''),
      unisat = Some (\<lambda>p. None),
      wallet_publicKey = Some ''02ab'',
      finalize_script_input = (\<lambda>p. None),
      extractTransaction = (\<lambda>p. None),
      date_now = 0\<rparr>"

text \<open>The same, except that a transaction whose input carries a witness script cannot be
  extracted: the unlock builder's first assembly fails there and its second one runs.\<close>

definition sample_env_fallback :: "utxo list \<Rightarrow> env" where
  "sample_env_fallback wallet =
     (sample_env wallet)
       \<lparr>extractTransaction :=
          (\<lambda>p. if list_ex (\<lambda>i. witnessScript i \<noteq> None) (psbt_inputs p)
                then Some (Error ''Not finalized'') else None)\<rparr>"

text \<open>The same, except that the broadcast endpoint rejects every transaction.\<close>

definition sample_env_rejecting :: "utxo list \<Rightarrow> env" where
  "sample_env_rejecting wallet =
     (sample_env wallet)\<lparr>broadcast_api := (\<lambda>tx. HttpError 400 ''bad-txns'')\<rparr>"

section \<open>Registry properties\<close>

lemma getTrackedScripts_markScriptAsSpent:
  "getTrackedScripts (markScriptAsSpent addr w) =
     map (\<lambda>script. if scriptAddress script = addr then script\<lparr>isSpent := True\<rparr> else script)
         (getTrackedScripts w)"
  by (simp add: markScriptAsSpent_def getTrackedScripts_def)

text \<open>
  C9. Marking a script address as spent twice leaves the registry, both the stored item and
  everything \<^verbatim>\<open>getTrackedScripts\<close> and \<^verbatim>\<open>getTrackedScriptsByWallet\<close> report, exactly as
  marking it once does; the second call never fails.
\<close>

theorem markScriptAsSpent_idempotent:
  "markScriptAsSpent addr (markScriptAsSpent addr w) = markScriptAsSpent addr w
   \<and> getTrackedScripts (markScriptAsSpent addr (markScriptAsSpent addr w))
       = getTrackedScripts (markScriptAsSpent addr w)
   \<and> getTrackedScriptsByWallet wallet (markScriptAsSpent addr (markScriptAsSpent addr w))
       = getTrackedScriptsByWallet wallet (markScriptAsSpent addr w)"
proof -
  have "markScriptAsSpent addr (markScriptAsSpent addr w) = markScriptAsSpent addr w"
    by (simp add: markScriptAsSpent_def getTrackedScripts_def comp_def cong: map_cong)
  then show ?thesis by simp
qed

text \<open>
  C10. After mark-spent the registry holds the same records in the same order: a record at
  the given address has \<open>isSpent\<close> set and every other field as before, a record at any
  other address is untouched, and none is added or removed.
\<close>

theorem markScriptAsSpent_frame:
  "length (getTrackedScripts (markScriptAsSpent addr w)) = length (getTrackedScripts w)
   \<and> (\<forall>i < length (getTrackedScripts w).
         let old = getTrackedScripts w ! i; new = getTrackedScripts (markScriptAsSpent addr w) ! i
         in (scriptAddress old = addr \<longrightarrow> new = old\<lparr>isSpent := True\<rparr>)
          \<and> (scriptAddress old \<noteq> addr \<longrightarrow> new = old)
          \<and> script_id new = script_id old
          \<and> scriptAddress new = scriptAddress old
          \<and> originalScript new = originalScript old
          \<and> compiledScript new = compiledScript old
          \<and> createdAt new = createdAt old
          \<and> createdBy new = createdBy old
          \<and> fundingTxid new = fundingTxid old
          \<and> amount new = amount old)"
  by (simp add: getTrackedScripts_markScriptAsSpent Let_def)

section \<open>Selector properties\<close>

lemma sortedUtxos_descending:
  "sorted_wrt (\<lambda>a b. utxo_value a \<ge> utxo_value b) (sortedUtxos available)"
proof -
  have "sorted (map (\<lambda>u. - utxo_value u) (sortedUtxos available))"
    by (simp add: sortedUtxos_def)
  then show ?thesis
    by (simp add: sorted_wrt_map)
qed

lemma sortedUtxos_mset: "mset (sortedUtxos available) = mset available"
  by (simp add: sortedUtxos_def)

lemma sum_values_sortedUtxos: "sum_values (sortedUtxos available) = sum_values available"
proof -
  have "mset (map utxo_value (sortedUtxos available)) = mset (map utxo_value available)"
    by (simp add: sortedUtxos_mset)
  then have "sum_list (map utxo_value (sortedUtxos available)) = sum_list (map utxo_value available)"
    by (metis sum_mset_sum_list)
  then show ?thesis
    by (simp add: sum_values_def)
qed

lemma select_loop_prefix:
  "\<exists>n \<le> length us.
      select_loop t us sel running = (sel @ take n us, running + sum_values (take n us))
      \<and> (\<forall>k < n. running + sum_values (take k us) < t)
      \<and> (n < length us \<longrightarrow> t \<le> running + sum_values (take n us))"
proof (induction us arbitrary: sel running)
  case Nil
  show ?case by (simp add: sum_values_def)
next
  case (Cons u us)
  show ?case
  proof (cases "t \<le> running")
    case True
    have "select_loop t (u # us) sel running = (sel @ take 0 (u # us), running + sum_values (take 0 (u # us)))
          \<and> (\<forall>k < (0::nat). running + sum_values (take k (u # us)) < t)
          \<and> (0 < length (u # us) \<longrightarrow> t \<le> running + sum_values (take 0 (u # us)))"
      using True by (simp add: sum_values_def)
    then show ?thesis by blast
  next
    case False
    from Cons.IH [of "sel @ [u]" "running + utxo_value u"]
    obtain n where n: "n \<le> length us"
      and run: "select_loop t us (sel @ [u]) (running + utxo_value u)
                  = ((sel @ [u]) @ take n us, (running + utxo_value u) + sum_values (take n us))"
      and below: "\<forall>k < n. (running + utxo_value u) + sum_values (take k us) < t"
      and reach: "n < length us \<longrightarrow> t \<le> (running + utxo_value u) + sum_values (take n us)"
      by blast
    have 1: "select_loop t (u # us) sel running
               = (sel @ take (Suc n) (u # us), running + sum_values (take (Suc n) (u # us)))"
      using False run by (simp add: sum_values_def)
    have 2: "\<forall>k < Suc n. running + sum_values (take k (u # us)) < t"
    proof (intro allI impI)
      fix k assume "k < Suc n"
      show "running + sum_values (take k (u # us)) < t"
      proof (cases k)
        case 0
        then show ?thesis using False by (simp add: sum_values_def)
      next
        case (Suc j)
        then have "j < n" using \<open>k < Suc n\<close> by simp
        then show ?thesis using below Suc by (simp add: sum_values_def add.assoc)
      qed
    qed
    have 3: "Suc n < length (u # us) \<longrightarrow> t \<le> running + sum_values (take (Suc n) (u # us))"
      using reach by (simp add: sum_values_def add.assoc)
    have "Suc n \<le> length (u # us)" using n by simp
    with 1 2 3 show ?thesis by blast
  qed
qed

text \<open>
  C3. When the UTXOs' running reaches the target, the selector returns a prefix of the list
  sorted descending by value (a stable sort of the input), its running running as
  \<open>totalValue\<close>, at least the target; every shorter prefix totals less than the target, so
  accumulation stopped at the first prefix that reaches it.
\<close>

theorem selectUtxos_shortest_prefix:
  assumes "targetAmount \<le> sum_values available"
  shows "\<exists>n \<le> length available.
           selectUtxos available targetAmount
             = Inr \<lparr>selectedUtxos = take n (sortedUtxos available),
                     totalValue = sum_values (take n (sortedUtxos available))\<rparr>
           \<and> targetAmount \<le> sum_values (take n (sortedUtxos available))
           \<and> (\<forall>k < n. sum_values (take k (sortedUtxos available)) < targetAmount)
           \<and> sorted_wrt (\<lambda>a b. utxo_value a \<ge> utxo_value b) (sortedUtxos available)
           \<and> mset (sortedUtxos available) = mset available"
proof -
  let ?s = "sortedUtxos available"
  have len: "length ?s = length available"
    by (simp add: sortedUtxos_def)
  from select_loop_prefix [of ?s targetAmount "[]" 0]
  obtain n where n: "n \<le> length ?s"
    and run: "select_loop targetAmount ?s [] 0 = (take n ?s, sum_values (take n ?s))"
    and below: "\<forall>k < n. sum_values (take k ?s) < targetAmount"
    and reach: "n < length ?s \<longrightarrow> targetAmount \<le> sum_values (take n ?s)"
    by auto
  have ge: "targetAmount \<le> sum_values (take n ?s)"
  proof (cases "n < length ?s")
    case True
    then show ?thesis using reach by simp
  next
    case False
    then have "take n ?s = ?s" using n by simp
    then show ?thesis using assms by (simp add: sum_values_sortedUtxos)
  qed
  have "selectUtxos available targetAmount
          = Inr \<lparr>selectedUtxos = take n ?s, totalValue = sum_values (take n ?s)\<rparr>"
    using run ge by (simp add: selectUtxos_def)
  with n len ge below sortedUtxos_descending [of available] sortedUtxos_mset [of available]
  show ?thesis by auto
qed

section \<open>The library's number encoder against the specification's encoding\<close>

lemma toInt32_id: "- 2147483648 \<le> v \<Longrightarrow> v < 2147483648 \<Longrightarrow> toInt32 v = v"
  by (simp add: toInt32_def)

lemma toInt32_high:
  assumes "2147483648 \<le> v" "v < 4294967296"
  shows "toInt32 v = v - 4294967296"
proof -
  have "(v + 2147483648) mod 4294967296 = (v + 2147483648 - 4294967296) mod 4294967296"
    by (simp only: minus_mod_self2)
  also have "\<dots> = v + 2147483648 - 4294967296"
    using assms by (intro mod_pos_pos_trivial) simp_all
  finally show ?thesis by (simp add: toInt32_def)
qed

lemma magnitude_bytes_0: "magnitude_bytes 0 = []"
  by (subst magnitude_bytes.simps) simp

lemma magnitude_bytes_1: "0 < m \<Longrightarrow> m < 256 \<Longrightarrow> magnitude_bytes m = [m]"
  by (subst magnitude_bytes.simps) (simp add: magnitude_bytes_0)

lemma magnitude_bytes_2: "256 \<le> m \<Longrightarrow> m < 65536 \<Longrightarrow> magnitude_bytes m = [m mod 256, m div 256]"
proof -
  assume a: "256 \<le> m" "m < 65536"
  then have "0 < m div 256" "m div 256 < 256" by arith+
  then have "magnitude_bytes (m div 256) = [m div 256]" by (rule magnitude_bytes_1)
  then show ?thesis using a by (subst magnitude_bytes.simps) simp
qed

lemma magnitude_bytes_3: "65536 \<le> m \<Longrightarrow> m < 16777216 \<Longrightarrow>
   magnitude_bytes m = [m mod 256, m div 256 mod 256, m div 65536]"
proof -
  assume a: "65536 \<le> m" "m < 16777216"
  then have "256 \<le> m div 256" "m div 256 < 65536" by arith+
  then have "magnitude_bytes (m div 256) = [m div 256 mod 256, m div 256 div 256]" by (rule magnitude_bytes_2)
  moreover have "m div 256 div 256 = m div 65536" by (simp add: div_mult2_eq [symmetric])
  ultimately show ?thesis using a by (subst magnitude_bytes.simps) simp
qed

lemma magnitude_bytes_4: "16777216 \<le> m \<Longrightarrow> m < 4294967296 \<Longrightarrow>
   magnitude_bytes m = [m mod 256, m div 256 mod 256, m div 65536 mod 256, m div 16777216]"
proof -
  assume a: "16777216 \<le> m" "m < 4294967296"
  then have "65536 \<le> m div 256" "m div 256 < 16777216" by arith+
  then have "magnitude_bytes (m div 256)
     = [m div 256 mod 256, m div 256 div 256 mod 256, m div 256 div 65536]" by (rule magnitude_bytes_3)
  moreover have "m div 256 div 256 = m div 65536" "m div 256 div 65536 = m div 16777216"
    by (simp_all add: div_mult2_eq [symmetric])
  ultimately show ?thesis using a by (subst magnitude_bytes.simps) simp
qed

lemma encode_loop_2: "- 2147483648 \<le> v \<Longrightarrow> v < 2147483648 \<Longrightarrow>
   encode_loop 2 v = [nat (v mod 256), nat (v div 256 mod 256)]"
proof -
  assume a: "- 2147483648 \<le> v" "v < 2147483648"
  then have b: "- 2147483648 \<le> v div 256" "v div 256 < 2147483648" by arith+
  have "encode_loop 2 v = nat (toInt32 v mod 256) # encode_loop (Suc 0) (toInt32 v div 256)"
    by (simp add: numeral_2_eq_2)
  then show ?thesis using a b by (simp add: toInt32_id)
qed

lemma encode_loop_3: "- 2147483648 \<le> v \<Longrightarrow> v < 2147483648 \<Longrightarrow>
   encode_loop 3 v = [nat (v mod 256), nat (v div 256 mod 256), nat (v div 65536 mod 256)]"
proof -
  assume a: "- 2147483648 \<le> v" "v < 2147483648"
  then have b: "- 2147483648 \<le> v div 256" "v div 256 < 2147483648" by arith+
  have c: "v div 256 div 256 = v div 65536" by (simp add: zdiv_zmult2_eq [symmetric])
  have "encode_loop 3 v = nat (toInt32 v mod 256) # encode_loop 2 (toInt32 v div 256)"
    by (simp add: numeral_3_eq_3 numeral_2_eq_2)
  then show ?thesis using a b c by (simp add: toInt32_id encode_loop_2)
qed

lemma encode_loop_4: "- 2147483648 \<le> v \<Longrightarrow> v < 2147483648 \<Longrightarrow>
   encode_loop 4 v = [nat (v mod 256), nat (v div 256 mod 256), nat (v div 65536 mod 256),
                      nat (v div 16777216 mod 256)]"
proof -
  assume a: "- 2147483648 \<le> v" "v < 2147483648"
  then have b: "- 2147483648 \<le> v div 256" "v div 256 < 2147483648" by arith+
  have c: "v div 256 div 256 = v div 65536" "v div 256 div 65536 = v div 16777216"
    by (simp_all add: zdiv_zmult2_eq [symmetric])
  have "encode_loop 4 v = nat (toInt32 v mod 256) # encode_loop 3 (toInt32 v div 256)"
    by (simp add: eval_nat_numeral)
  then show ?thesis using a b c by (simp add: toInt32_id encode_loop_3)
qed

lemma sub_mult_div: "b \<noteq> 0 \<Longrightarrow> (a - c * b) div (b::int) = a div b - c"
  using div_mult_self1 [of b a "- c"] by simp

lemma sub_mult_mod: "(a - c * b) mod (b::int) = a mod b"
  using mod_mult_self1 [of a "- c" b] by simp

lemma encode_loop_5:
  assumes "2147483648 \<le> v" "v < 4294967296"
  shows "encode_loop 5 v = [nat (v mod 256), nat (v div 256 mod 256), nat (v div 65536 mod 256),
                      nat (v div 16777216 mod 256), 255]"
proof -
  define w where "w = (v - 4294967296) div 256"
  have w: "w = v div 256 - 16777216"
    using sub_mult_div [of 256 v 16777216] by (simp add: w_def)
  have c: "(v - 4294967296) mod 256 = v mod 256"
    using sub_mult_mod [of v 16777216 256] by simp
  have lo: "8388608 \<le> v div 256" using assms by arith
  have hi: "v div 256 < 16777216" using assms by arith
  have b: "- 2147483648 \<le> w" "w < 2147483648" using lo hi by (simp_all add: w)
  have d: "w mod 256 = v div 256 mod 256"
    using sub_mult_mod [of "v div 256" 65536 256] by (simp add: w)
  have e: "w div 256 mod 256 = v div 65536 mod 256"
  proof -
    have "w div 256 = v div 256 div 256 - 65536"
      using sub_mult_div [of 256 "v div 256" 65536] by (simp add: w)
    then have "w div 256 = v div 65536 - 65536" by (simp add: zdiv_zmult2_eq [symmetric])
    then show ?thesis using sub_mult_mod [of "v div 65536" 256 256] by simp
  qed
  have f: "w div 65536 mod 256 = v div 16777216 mod 256"
  proof -
    have "w div 65536 = v div 256 div 65536 - 256"
      using sub_mult_div [of 65536 "v div 256" 256] by (simp add: w)
    then have "w div 65536 = v div 16777216 - 256" by (simp add: zdiv_zmult2_eq [symmetric])
    then show ?thesis using sub_mult_mod [of "v div 16777216" 1 256] by simp
  qed
  have g: "w div 16777216 mod 256 = 255"
  proof -
    have "v div 256 div 16777216 = 0" using lo hi by (intro div_pos_pos_trivial) simp_all
    moreover have "w div 16777216 = v div 256 div 16777216 - 1"
      using sub_mult_div [of 16777216 "v div 256" 1] by (simp add: w)
    ultimately show ?thesis by simp
  qed
  have "encode_loop 5 v = nat (toInt32 v mod 256) # encode_loop 4 (toInt32 v div 256)"
    by (simp add: eval_nat_numeral)
  then have "encode_loop 5 v = nat (v mod 256) # encode_loop 4 w"
    using assms c by (simp add: toInt32_high w_def)
  moreover have "encode_loop 4 w = [nat (w mod 256), nat (w div 256 mod 256),
                      nat (w div 65536 mod 256), nat (w div 16777216 mod 256)]"
    using b by (rule encode_loop_4)
  ultimately show ?thesis by (simp only: d e f g) simp
qed

lemma nat_byte0: "nat (int m mod 256) = m mod 256"
  by (simp add: nat_mod_distrib)

lemma nat_byte1: "nat (int m div 256 mod 256) = m div 256 mod 256"
  by (simp add: nat_mod_distrib nat_div_distrib)

lemma nat_byte2: "nat (int m div 65536 mod 256) = m div 65536 mod 256"
  by (simp add: nat_mod_distrib nat_div_distrib)

lemma nat_byte3: "nat (int m div 16777216 mod 256) = m div 16777216 mod 256"
  by (simp add: nat_mod_distrib nat_div_distrib)

lemma number_encode_size0: "number_encode 0 = scriptnum_spec 0"
  by (simp add: number_encode_def scriptnum_spec_def scriptNumSize_def magnitude_bytes_0)

lemma number_encode_size1:
  assumes "0 < m" "m \<le> 127"
  shows "number_encode (int m) = scriptnum_spec (int m)"
proof -
  have size: "scriptNumSize (int m) = Suc 0" using assms by (simp add: scriptNumSize_def)
  have top: "m mod 256 = m" using assms by simp
  have t: "toInt32 (int m) = int m"
    using assms by (intro toInt32_id) simp_all
  have "number_encode (int m) = [m]"
    using assms by (simp add: number_encode_def size t nat_byte0 top)
  moreover have "magnitude_bytes m = [m]" using assms by (intro magnitude_bytes_1) simp_all
  then have "scriptnum_spec (int m) = [m]" using assms by (simp add: scriptnum_spec_def)
  ultimately show ?thesis by simp
qed

lemma number_encode_size2:
  assumes "128 \<le> m" "m \<le> 32767"
  shows "number_encode (int m) = scriptnum_spec (int m)"
proof -
  have size: "scriptNumSize (int m) = 2" using assms by (simp add: scriptNumSize_def)
  have hi: "m div 256 < 128" using assms by arith
  then have top: "m div 256 mod 256 = m div 256" by simp
  have "encode_loop 2 (int m) = [nat (int m mod 256), nat (int m div 256 mod 256)]"
    using assms by (intro encode_loop_2) simp_all
  then have buf: "encode_loop 2 (int m) = [m mod 256, m div 256]"
    by (simp only: nat_byte0 nat_byte1 top)
  have ne: "number_encode (int m) = [m mod 256, m div 256]"
    using hi by (simp add: number_encode_def size buf)
  show ?thesis
  proof (cases "m < 256")
    case True
    then have "magnitude_bytes m = [m]" using assms by (intro magnitude_bytes_1) simp_all
    then have "scriptnum_spec (int m) = [m, 0]" using assms by (simp add: scriptnum_spec_def)
    then show ?thesis using ne True by simp
  next
    case False
    then have "magnitude_bytes m = [m mod 256, m div 256]" using assms by (intro magnitude_bytes_2) simp_all
    then have "scriptnum_spec (int m) = [m mod 256, m div 256]"
      using hi by (simp add: scriptnum_spec_def)
    then show ?thesis using ne by simp
  qed
qed

lemma number_encode_size3:
  assumes "32768 \<le> m" "m \<le> 8388607"
  shows "number_encode (int m) = scriptnum_spec (int m)"
proof -
  have size: "scriptNumSize (int m) = 3" using assms by (simp add: scriptNumSize_def)
  have hi: "m div 65536 < 128" using assms by arith
  then have top: "m div 65536 mod 256 = m div 65536" by simp
  have "encode_loop 3 (int m)
      = [nat (int m mod 256), nat (int m div 256 mod 256), nat (int m div 65536 mod 256)]"
    using assms by (intro encode_loop_3) simp_all
  then have buf: "encode_loop 3 (int m) = [m mod 256, m div 256 mod 256, m div 65536]"
    by (simp only: nat_byte0 nat_byte1 nat_byte2 top)
  have ne: "number_encode (int m) = [m mod 256, m div 256 mod 256, m div 65536]"
    using hi by (simp add: number_encode_def size buf)
  show ?thesis
  proof (cases "m < 65536")
    case True
    have top: "128 \<le> m div 256" using assms by arith
    have "m div 256 < 256" using True by arith
    then have small: "m div 256 mod 256 = m div 256" "m div 65536 = 0" using True by simp_all
    have "magnitude_bytes m = [m mod 256, m div 256]" using assms True by (intro magnitude_bytes_2) simp_all
    then have "scriptnum_spec (int m) = [m mod 256, m div 256, 0]"
      using top by (simp add: scriptnum_spec_def)
    then show ?thesis using ne small by simp
  next
    case False
    then have "magnitude_bytes m = [m mod 256, m div 256 mod 256, m div 65536]"
      using assms by (intro magnitude_bytes_3) simp_all
    then have "scriptnum_spec (int m) = [m mod 256, m div 256 mod 256, m div 65536]"
      using hi by (simp add: scriptnum_spec_def)
    then show ?thesis using ne by simp
  qed
qed

lemma number_encode_size4:
  assumes "8388608 \<le> m" "m \<le> 2147483647"
  shows "number_encode (int m) = scriptnum_spec (int m)"
proof -
  have size: "scriptNumSize (int m) = 4" using assms by (simp add: scriptNumSize_def)
  have hi: "m div 16777216 < 128" using assms by arith
  then have top: "m div 16777216 mod 256 = m div 16777216" by simp
  have "encode_loop 4 (int m)
      = [nat (int m mod 256), nat (int m div 256 mod 256), nat (int m div 65536 mod 256),
         nat (int m div 16777216 mod 256)]"
    using assms by (intro encode_loop_4) simp_all
  then have buf: "encode_loop 4 (int m)
      = [m mod 256, m div 256 mod 256, m div 65536 mod 256, m div 16777216]"
    by (simp only: nat_byte0 nat_byte1 nat_byte2 nat_byte3 top)
  have ne: "number_encode (int m)
      = [m mod 256, m div 256 mod 256, m div 65536 mod 256, m div 16777216]"
    using hi by (simp add: number_encode_def size buf)
  show ?thesis
  proof (cases "m < 16777216")
    case True
    have top: "128 \<le> m div 65536" using assms by arith
    have "m div 65536 < 256" using True by arith
    then have small: "m div 65536 mod 256 = m div 65536" "m div 16777216 = 0"
      using True by simp_all
    have "magnitude_bytes m = [m mod 256, m div 256 mod 256, m div 65536]"
      using assms True by (intro magnitude_bytes_3) simp_all
    then have "scriptnum_spec (int m) = [m mod 256, m div 256 mod 256, m div 65536, 0]"
      using top by (simp add: scriptnum_spec_def)
    then show ?thesis using ne small by simp
  next
    case False
    then have "magnitude_bytes m
        = [m mod 256, m div 256 mod 256, m div 65536 mod 256, m div 16777216]"
      using assms by (intro magnitude_bytes_4) simp_all
    then have "scriptnum_spec (int m)
        = [m mod 256, m div 256 mod 256, m div 65536 mod 256, m div 16777216]"
      using hi by (simp add: scriptnum_spec_def)
    then show ?thesis using ne by simp
  qed
qed

lemma number_encode_size5:
  assumes "2147483648 \<le> m" "m < 4294967296"
  shows "number_encode (int m) = scriptnum_spec (int m)"
proof -
  have size: "scriptNumSize (int m) = 5" using assms by (simp add: scriptNumSize_def)
  have "m div 16777216 < 256" using assms by arith
  then have top3: "m div 16777216 mod 256 = m div 16777216" by simp
  have "encode_loop 5 (int m)
      = [nat (int m mod 256), nat (int m div 256 mod 256), nat (int m div 65536 mod 256),
         nat (int m div 16777216 mod 256), 255]"
    using assms by (intro encode_loop_5) simp_all
  then have buf: "encode_loop 5 (int m)
      = [m mod 256, m div 256 mod 256, m div 65536 mod 256, m div 16777216, 255]"
    by (simp only: nat_byte0 nat_byte1 nat_byte2 nat_byte3 top3)
  have ne: "number_encode (int m)
      = [m mod 256, m div 256 mod 256, m div 65536 mod 256, m div 16777216, 0]"
    by (simp add: number_encode_def size buf)
  have top: "128 \<le> m div 16777216" using assms by arith
  have "magnitude_bytes m
        = [m mod 256, m div 256 mod 256, m div 65536 mod 256, m div 16777216]"
    using assms by (intro magnitude_bytes_4) simp_all
  then have "scriptnum_spec (int m)
        = [m mod 256, m div 256 mod 256, m div 65536 mod 256, m div 16777216, 0]"
    using top by (simp add: scriptnum_spec_def)
  then show ?thesis using ne by simp
qed

lemma number_encode_is_spec:
  assumes "0 \<le> n" "n < 4294967296"
  shows "number_encode n = scriptnum_spec n"
proof -
  define m where "m = nat n"
  have n: "n = int m" using assms by (simp add: m_def)
  have m: "m < 4294967296" using assms by (simp add: m_def)
  consider "m = 0" | "0 < m \<and> m \<le> 127" | "128 \<le> m \<and> m \<le> 32767"
    | "32768 \<le> m \<and> m \<le> 8388607" | "8388608 \<le> m \<and> m \<le> 2147483647"
    | "2147483648 \<le> m \<and> m < 4294967296"
    using m by linarith
  then show ?thesis
  proof cases
    case 1 then show ?thesis using number_encode_size0 by (simp add: n)
  next
    case 2 then show ?thesis using number_encode_size1 by (simp add: n)
  next
    case 3 then show ?thesis using number_encode_size2 by (simp add: n)
  next
    case 4 then show ?thesis using number_encode_size3 by (simp add: n)
  next
    case 5 then show ?thesis using number_encode_size4 by (simp add: n)
  next
    case 6 then show ?thesis using number_encode_size5 by (simp add: n)
  qed
qed

lemma magnitude_bytes_value:
  "foldr (\<lambda>b acc. b + 256 * acc) (magnitude_bytes m) 0 = m"
proof (induction m rule: magnitude_bytes.induct)
  case (1 n)
  show ?case
  proof (cases "n = 0")
    case True
    then show ?thesis by (simp add: magnitude_bytes_0)
  next
    case False
    then show ?thesis using 1 by (subst magnitude_bytes.simps) simp
  qed
qed

lemma magnitude_bytes_minimal:
  "magnitude_bytes m \<noteq> [] \<Longrightarrow> last (magnitude_bytes m) \<noteq> 0"
proof (induction m rule: magnitude_bytes.induct)
  case (1 n)
  show ?case
  proof (cases "n div 256 = 0")
    case True
    then have "magnitude_bytes n = [n mod 256]" "n \<noteq> 0"
      using 1(2) by (auto simp: magnitude_bytes.simps [of n] magnitude_bytes_0 split: if_splits)
    then show ?thesis using True by auto
  next
    case False
    then have n: "n \<noteq> 0" by auto
    then have "magnitude_bytes (n div 256) \<noteq> []"
      using False by (subst magnitude_bytes.simps) simp
    then show ?thesis using 1(1) n by (subst magnitude_bytes.simps) simp
  qed
qed

section \<open>Compiler properties\<close>

lemma all_digits_not_OP: "all_digits line \<Longrightarrow> \<not> prefix ''OP_'' line"
  by (cases line) (auto simp: all_digits_def is_digit_def code_unit_def)

lemma all_digits_not_0x: "all_digits line \<Longrightarrow> \<not> prefix ''0x'' line"
  by (cases line; cases "tl line") (auto simp: all_digits_def is_digit_def code_unit_def)

lemma parseInt_foldl_nonneg:
  "0 \<le> a \<Longrightarrow> list_all is_digit s \<Longrightarrow>
     0 \<le> foldl (\<lambda>acc c. 10 * acc + (int (code_unit c) - 48)) a s"
  by (induction s arbitrary: a) (auto simp: is_digit_def)

lemma parseInt_nonneg: "all_digits s \<Longrightarrow> 0 \<le> parseInt s"
  by (simp add: parseInt_def all_digits_def parseInt_foldl_nonneg)

lemma parseLine_digits:
  assumes "all_digits line"
  shows "parseLine opcodes line =
     (if parseInt line = 0 then Inr [Opcode OP_0]
      else if parseInt line \<le> 16 then Inr [Opcode (OP_1 + parseInt line - 1)]
      else Inr [Data (number_encode (parseInt line))])"
  using assms parseInt_nonneg [OF assms]
  by (auto simp: parseLine_def all_digits_not_OP all_digits_not_0x Let_def)

lemma buffer_from_hex_length:
  "well_formed_hex s \<Longrightarrow> length (buffer_from_hex s) = length s div 2"
  by (induction s rule: buffer_from_hex.induct) (auto simp: well_formed_hex_def)

lemma parseInt_4294967296: "parseInt ''4294967296'' = 4294967296"
  by (simp add: parseInt_def code_unit_def)

lemma all_digits_4294967296: "all_digits ''4294967296''"
  by (simp add: all_digits_def is_digit_def code_unit_def)

lemma number_encode_4294967296: "number_encode 4294967296 = [0, 0, 0, 0, 0]"
  by (simp add: number_encode_def scriptNumSize_def eval_nat_numeral toInt32_def)

lemma scriptnum_spec_4294967296: "scriptnum_spec 4294967296 = [0, 0, 0, 0, 1]"
  by (simp add: scriptnum_spec_def magnitude_bytes.simps)

text \<open>
  C5, at the line \<^verbatim>\<open>0xzz\<close> and at the line \<^verbatim>\<open>0x12zz\<close>: the remainder has even length
  and is not hexadecimal, yet compilation succeeds, pushing no byte at all for the first
  and the single byte \<open>0x12\<close> for the second. Only a remainder of odd length is rejected.
\<close>

theorem parseScript_accepts_non_hex_digits:
  "parseScript opcodes compile ''0xzz'' = Inr (compile [Data []])
   \<and> parseScript opcodes compile ''0x12zz'' = Inr (compile [Data [18]])
   \<and> parseScript opcodes compile ''0x123''
       = Inl (Error ''Invalid hex data: 0x123'')"
  by (simp add: parseScript_def source_lines_def trim_def is_space_def code_unit_def
        parseLine_def hex_value_def)

text \<open>
  C6, amended. A line of decimal digits only pushes one element: for the value 0 the
  opcode \<open>OP_0\<close>; for a value \<open>n\<close> from 1 to 16 the opcode \<open>OP_1 + n - 1\<close>; and for a
  value above 16 and below \<open>2^32\<close> the minimal-length signed little-endian script-number
  encoding of the value, as data.
\<close>

theorem parse_decimal_token:
  assumes "all_digits line"
  shows "(parseInt line = 0 \<longrightarrow>
            parse_lines opcodes (line # rest) acc = parse_lines opcodes rest (acc @ [Opcode OP_0]))
       \<and> (1 \<le> parseInt line \<and> parseInt line \<le> 16 \<longrightarrow>
            parse_lines opcodes (line # rest) acc
              = parse_lines opcodes rest (acc @ [Opcode (OP_1 + parseInt line - 1)]))
       \<and> (16 < parseInt line \<and> parseInt line < 4294967296 \<longrightarrow>
            parse_lines opcodes (line # rest) acc
              = parse_lines opcodes rest (acc @ [Data (scriptnum_spec (parseInt line))]))"
  using assms parseInt_nonneg [OF assms]
  by (auto simp: parseLine_digits number_encode_is_spec)

text \<open>
  The three kinds of decimal line, at \<^verbatim>\<open>0\<close>, \<^verbatim>\<open>16\<close> and \<^verbatim>\<open>300\<close>.
\<close>

theorem parse_decimal_token_witness:
  "all_digits ''0'' \<and> parseInt ''0'' = 0
   \<and> parse_lines (map_of [(''OP_DUP'', 118)]) [''0''] [] = Inr [Opcode 0]
   \<and> all_digits ''16'' \<and> parseInt ''16'' = 16
   \<and> parse_lines (map_of [(''OP_DUP'', 118)]) [''16''] [] = Inr [Opcode 96]
   \<and> all_digits ''300'' \<and> parseInt ''300'' = 300
   \<and> parse_lines (map_of [(''OP_DUP'', 118)]) [''300''] [] = Inr [Data [44, 1]]"
proof -
  have d: "all_digits ''0''" "all_digits ''16''" "all_digits ''300''"
    by (simp_all add: all_digits_def is_digit_def code_unit_def)
  have v: "parseInt ''0'' = 0" "parseInt ''16'' = 16" "parseInt ''300'' = 300"
    by (simp_all add: parseInt_def code_unit_def)
  have s: "scriptnum_spec 300 = [44, 1]"
    by (simp add: scriptnum_spec_def magnitude_bytes.simps)
  show ?thesis
    using parse_decimal_token [OF d(1), of "map_of [(''OP_DUP'', 118)]" "[]" "[]"]
      parse_decimal_token [OF d(2), of "map_of [(''OP_DUP'', 118)]" "[]" "[]"]
      parse_decimal_token [OF d(3), of "map_of [(''OP_DUP'', 118)]" "[]" "[]"]
    by (simp add: d v s OP_0_def OP_1_def)
qed

text \<open>
  C6 as stated fails at the line \<^verbatim>\<open>4294967296\<close>: five zero bytes are pushed, which is
  not the encoding of \<open>2^32\<close> (and is not minimal).
\<close>

theorem parse_decimal_token_counterexample:
  "all_digits ''4294967296'' \<and> 16 < parseInt ''4294967296''
   \<and> parse_lines (map_of [(''OP_DUP'', 118)]) [''4294967296''] [] = Inr [Data [0, 0, 0, 0, 0]]
   \<and> scriptnum_spec (parseInt ''4294967296'') = [0, 0, 0, 0, 1]"
  by (simp add: parseLine_digits all_digits_4294967296 parseInt_4294967296
        number_encode_4294967296 scriptnum_spec_4294967296)

section \<open>Witness stack items\<close>

text \<open>
  C7, amended. An item is converted by the first rule that applies: an item starting with
  \<^verbatim>\<open>0x\<close> is hex-decoded (all of it, when it is hexadecimal throughout); \<^verbatim>\<open>OP_TRUE\<close> and
  \<^verbatim>\<open>1\<close> give the byte \<open>0x01\<close>; \<^verbatim>\<open>OP_FALSE\<close> and \<^verbatim>\<open>0\<close> give no byte; any other item of
  decimal digits, of a value below \<open>2^32\<close>, gives the script-number encoding of its value;
  every remaining item gives its UTF-8 bytes.
\<close>

theorem witnessItem_precedence:
  "(prefix ''0x'' item \<longrightarrow> witnessItem item = buffer_from_hex (drop 2 item))
   \<and> (prefix ''0x'' item \<and> well_formed_hex (drop 2 item) \<longrightarrow>
         length (witnessItem item) = (length item - 2) div 2)
   \<and> (item = ''OP_TRUE'' \<or> item = ''1'' \<longrightarrow> witnessItem item = [1])
   \<and> (item = ''OP_FALSE'' \<or> item = ''0'' \<longrightarrow> witnessItem item = [])
   \<and> (all_digits item \<and> item \<noteq> ''1'' \<and> item \<noteq> ''0'' \<and> parseInt item < 4294967296 \<longrightarrow>
         witnessItem item = scriptnum_spec (parseInt item))
   \<and> (\<not> prefix ''0x'' item \<and> item \<noteq> ''OP_TRUE'' \<and> item \<noteq> ''1'' \<and> item \<noteq> ''OP_FALSE''
        \<and> item \<noteq> ''0'' \<and> \<not> all_digits item \<longrightarrow>
         witnessItem item = buffer_from_utf8 item)"
proof -
  have d: "all_digits item \<Longrightarrow> \<not> prefix ''0x'' item"
    by (rule all_digits_not_0x)
  have enc: "all_digits item \<Longrightarrow> parseInt item < 4294967296 \<Longrightarrow>
      number_encode (parseInt item) = scriptnum_spec (parseInt item)"
    using parseInt_nonneg by (intro number_encode_is_spec) simp_all
  have k: "\<not> all_digits ''OP_TRUE''" "\<not> all_digits ''OP_FALSE''"
    by (simp_all add: all_digits_def is_digit_def code_unit_def)
  show ?thesis
    using d enc k by (auto simp: witnessItem_def buffer_from_hex_length)
qed

text \<open>
  One item of each form: \<^verbatim>\<open>0xdead\<close>, \<^verbatim>\<open>OP_TRUE\<close>, \<^verbatim>\<open>0\<close>, \<^verbatim>\<open>300\<close> and \<^verbatim>\<open>hello\<close>.
\<close>

theorem witnessItem_precedence_witness:
  "prefix ''0x'' ''0xdead'' \<and> well_formed_hex (drop 2 ''0xdead'')
   \<and> witnessItem ''0xdead'' = [222, 173]
   \<and> witnessItem ''OP_TRUE'' = [1]
   \<and> witnessItem ''0'' = []
   \<and> all_digits ''300'' \<and> parseInt ''300'' < 4294967296 \<and> witnessItem ''300'' = [44, 1]
   \<and> \<not> prefix ''0x'' ''hello'' \<and> \<not> all_digits ''hello''
   \<and> witnessItem ''hello'' = [104, 101, 108, 108, 111]"
proof -
  have d: "all_digits ''300''" "parseInt ''300'' = 300" "\<not> all_digits ''hello''"
    by (simp_all add: all_digits_def is_digit_def parseInt_def code_unit_def)
  have s: "scriptnum_spec 300 = [44, 1]"
    by (simp add: scriptnum_spec_def magnitude_bytes.simps)
  have h: "well_formed_hex ''dead''" "buffer_from_hex ''dead'' = [222, 173]"
    by (simp_all add: well_formed_hex_def hex_value_def code_unit_def)
  have u: "buffer_from_utf8 ''hello'' = [104, 101, 108, 108, 111]"
    by (simp add: buffer_from_utf8_def code_unit_def)
  show ?thesis
    using witnessItem_precedence [of "''0xdead''"] witnessItem_precedence [of "''OP_TRUE''"]
      witnessItem_precedence [of "''0''"] witnessItem_precedence [of "''300''"]
      witnessItem_precedence [of "''hello''"]
    by (simp add: d s h u hex_value_def code_unit_def)
qed

text \<open>
  C7 as stated fails at the item \<^verbatim>\<open>4294967296\<close>: it becomes five zero bytes, not the
  encoding of \<open>2^32\<close>.
\<close>

theorem witnessItem_counterexample:
  "all_digits ''4294967296''
   \<and> witnessItem ''4294967296'' = [0, 0, 0, 0, 0]
   \<and> scriptnum_spec (parseInt ''4294967296'') = [0, 0, 0, 0, 1]"
  by (simp add: witnessItem_def all_digits_4294967296 parseInt_4294967296
        number_encode_4294967296 scriptnum_spec_4294967296)

section \<open>Unlock builder: the primary assembly\<close>

lemma input_total_addInput [simp]:
  "input_total (addInput i p) = input_total p + utxo_value (prevout i)"
  by (simp add: input_total_def addInput_def)

lemma input_total_spent: "input_total p = sum_values (spent_utxos p)"
  by (simp add: input_total_def sum_values_def spent_utxos_def comp_def)

lemma sponsor_loop_result:
  "sponsor_loop fetch sf us p ti n = Inr (p', ti', n') \<Longrightarrow>
     \<exists>added. spent_utxos p' = spent_utxos p @ added
       \<and> psbt_outputs p' = psbt_outputs p
       \<and> finalScriptWitness p' = finalScriptWitness p
       \<and> ti' = ti + sum_values added
       \<and> n' = n + sum_values added
       \<and> (sf \<le> n' \<or> added = filter (resolvable fetch) us)
       \<and> (added \<noteq> [] \<longrightarrow> n + sum_values (butlast added) < sf)"
proof (induction fetch sf us p ti n rule: sponsor_loop.induct)
  case (1 fetch shortfall p totalInput walletUtxosNeeded)
  then show ?case by (simp add: sum_values_def)
next
  case (2 fetch shortfall walletUtxo rest p totalInput walletUtxosNeeded)
  show ?case
  proof (cases "walletUtxosNeeded \<ge> shortfall")
    case True
    then show ?thesis using 2(4) by (simp add: sum_values_def)
  next
    case False
    show ?thesis
    proof (cases "fetch (txid walletUtxo)")
      case (NetworkError err)
      then show ?thesis using 2(4) False by simp
    next
      case (HttpError status body)
      then have "sponsor_loop fetch shortfall rest p totalInput walletUtxosNeeded = Inr (p', ti', n')"
        using 2(4) False by simp
      from 2(1) [OF False HttpError this] HttpError
      show ?thesis by (simp add: resolvable_def)
    next
      case (HttpOk vouts)
      show ?thesis
      proof (cases "output_script vouts (vout walletUtxo)")
        case None
        then have "sponsor_loop fetch shortfall rest p totalInput walletUtxosNeeded = Inr (p', ti', n')"
          using 2(4) False HttpOk by simp
        from 2(2) [OF False HttpOk None this] HttpOk None
        show ?thesis by (simp add: resolvable_def)
      next
        case (Some actualOutputScript)
        let ?i = "\<lparr>prevout = walletUtxo, prevout_script = actualOutputScript, witnessScript = None\<rparr>"
        have run: "sponsor_loop fetch shortfall rest (addInput ?i p)
                 (totalInput + utxo_value walletUtxo) (walletUtxosNeeded + utxo_value walletUtxo)
               = Inr (p', ti', n')"
          using 2(4) False HttpOk Some by simp
        from 2(3) [OF False HttpOk Some run]
        obtain added where a: "spent_utxos p' = spent_utxos (addInput ?i p) @ added"
          "psbt_outputs p' = psbt_outputs (addInput ?i p)"
          "finalScriptWitness p' = finalScriptWitness (addInput ?i p)"
          "ti' = totalInput + utxo_value walletUtxo + sum_values added"
          "n' = walletUtxosNeeded + utxo_value walletUtxo + sum_values added"
          "shortfall \<le> n' \<or> added = filter (resolvable fetch) rest"
          "added \<noteq> [] \<longrightarrow> walletUtxosNeeded + utxo_value walletUtxo + sum_values (butlast added) < shortfall"
          by blast
        have r: "resolvable fetch walletUtxo" using HttpOk Some by (simp add: resolvable_def)
        have "spent_utxos p' = spent_utxos p @ (walletUtxo # added)"
          using a(1) by (simp add: spent_utxos_def addInput_def)
        moreover have "psbt_outputs p' = psbt_outputs p" "finalScriptWitness p' = finalScriptWitness p"
          using a(2,3) by (simp_all add: addInput_def)
        moreover have "ti' = totalInput + sum_values (walletUtxo # added)"
          "n' = walletUtxosNeeded + sum_values (walletUtxo # added)"
          using a(4,5) by (simp_all add: sum_values_def)
        moreover have "shortfall \<le> n' \<or> walletUtxo # added = filter (resolvable fetch) (walletUtxo # rest)"
          using a(6) r by auto
        moreover have "walletUtxosNeeded + sum_values (butlast (walletUtxo # added)) < shortfall"
          using a(7) False by (cases "added = []") (simp_all add: sum_values_def)
        ultimately show ?thesis by blast
      qed
    qed
  qed
qed


lemma sponsor_result:
  assumes "sponsor e walletAddress v p = Inr (p', ti, n)"
  shows "\<exists>added. spent_utxos p' = spent_utxos p @ added
       \<and> psbt_outputs p' = psbt_outputs p
       \<and> finalScriptWitness p' = finalScriptWitness p
       \<and> ti = v + sum_values added
       \<and> n = sum_values added
       \<and> (added \<noteq> [] \<longleftrightarrow> needsWalletSponsorship v)
       \<and> (added \<noteq> [] \<longrightarrow>
            1500 \<le> sum_values added
            \<and> sum_values (butlast added) < 2046
            \<and> (2046 \<le> sum_values added
                \<or> (\<exists>walletUtxos. getUtxos (utxo_api e) walletAddress = Inr walletUtxos
                       \<and> added = filter (resolvable (tx_api e)) walletUtxos)))"
proof (cases "needsWalletSponsorship v")
  case False
  then have "p' = p" "ti = v" "n = 0" using assms by (simp_all add: sponsor_def)
  then show ?thesis using False by (simp add: sum_values_def)
next
  case True
  from assms True obtain walletUtxos where w: "getUtxos (utxo_api e) walletAddress = Inr walletUtxos"
    by (auto simp: sponsor_def split: sum.splits)
  from assms True w have run: "sponsor_loop (tx_api e) 2046 walletUtxos p v 0 = Inr (p', ti, n)"
    and enough: "\<not> ti < v + 1500"
    by (auto simp: sponsor_def estimatedFee_def minRelayFee_def Let_def split: sum.splits if_splits)
  from sponsor_loop_result [OF run]
  obtain added where a: "spent_utxos p' = spent_utxos p @ added"
    "psbt_outputs p' = psbt_outputs p" "finalScriptWitness p' = finalScriptWitness p"
    "ti = v + sum_values added" "n = 0 + sum_values added"
    "2046 \<le> n \<or> added = filter (resolvable (tx_api e)) walletUtxos"
    "added \<noteq> [] \<longrightarrow> 0 + sum_values (butlast added) < 2046"
    by blast
  have s: "1500 \<le> sum_values added" using a(4) enough by simp
  then have ne: "added \<noteq> []" by (auto simp: sum_values_def)
  show ?thesis
    using a s ne True w by auto
qed

lemma primary_assembly_result:
  assumes "primary_assembly e walletAddress u redeem pay = Inr (p, n)"
  shows "\<exists>added out. spent_utxos p = u # added
       \<and> n = sum_values added
       \<and> out = final_output (utxo_value u) (utxo_value u + sum_values added) (sum_values added)
       \<and> psbt_outputs p = [(walletAddress, out)]
       \<and> finalScriptWitness p = None
       \<and> 546 \<le> out
       \<and> minRelayFee \<le> input_total p - out
       \<and> (added \<noteq> [] \<longleftrightarrow> needsWalletSponsorship (utxo_value u))
       \<and> (added \<noteq> [] \<longrightarrow>
            1500 \<le> sum_values added
            \<and> sum_values (butlast added) < 2046
            \<and> (2046 \<le> sum_values added
                \<or> (\<exists>walletUtxos. getUtxos (utxo_api e) walletAddress = Inr walletUtxos
                       \<and> added = filter (resolvable (tx_api e)) walletUtxos)))"
proof -
  let ?v = "utxo_value u"
  let ?p0 = "addInput \<lparr>prevout = u, prevout_script = pay_output pay, witnessScript = Some redeem\<rparr>
               new_psbt"
  from assms obtain p1 ti where sp: "sponsor e walletAddress ?v ?p0 = Inr (p1, ti, n)"
    and chk: "check_amounts [] (final_output ?v ti n) (ti - final_output ?v ti n) = None"
    and p: "p = addOutput walletAddress (final_output ?v ti n) p1"
    by (auto simp: primary_assembly_def Let_def split: sum.splits option.splits)
  from sponsor_result [OF sp]
  obtain added where a: "spent_utxos p1 = spent_utxos ?p0 @ added"
    "psbt_outputs p1 = psbt_outputs ?p0" "finalScriptWitness p1 = finalScriptWitness ?p0"
    "ti = ?v + sum_values added" "n = sum_values added"
    "added \<noteq> [] \<longleftrightarrow> needsWalletSponsorship ?v"
    "added \<noteq> [] \<longrightarrow>
            1500 \<le> sum_values added
            \<and> sum_values (butlast added) < 2046
            \<and> (2046 \<le> sum_values added
                \<or> (\<exists>walletUtxos. getUtxos (utxo_api e) walletAddress = Inr walletUtxos
                       \<and> added = filter (resolvable (tx_api e)) walletUtxos))"
    by blast
  have s: "spent_utxos p = u # added"
    using a(1) p by (simp add: spent_utxos_def addInput_def addOutput_def new_psbt_def)
  have o: "psbt_outputs p = [(walletAddress, final_output ?v ti n)]"
    using a(2) p by (simp add: addInput_def addOutput_def new_psbt_def)
  have f: "finalScriptWitness p = None"
    using a(3) p by (simp add: addInput_def addOutput_def new_psbt_def)
  have t: "input_total p = ti"
    using s a(4) by (simp add: input_total_spent sum_values_def)
  have c: "546 \<le> final_output ?v ti n" "minRelayFee \<le> ti - final_output ?v ti n"
    using chk by (auto simp: check_amounts_def split: if_splits)
  show ?thesis
    using s o f t c a(4-7) by auto
qed


section \<open>Unlock builder: signing, the second assembly and the broadcast\<close>

lemma sign_and_finalize_result:
  "sign_and_finalize e hw src n p ws = Inr q \<Longrightarrow>
     q = p\<lparr>finalScriptWitness := Some ws\<rparr>"
  by (auto simp: sign_and_finalize_def Let_def split: sum.splits option.splits if_splits)

lemma fallback_loop_outputs:
  "psbt_outputs (fst (fallback_loop fetch sf us p a)) = psbt_outputs p"
  by (induction fetch sf us p a rule: fallback_loop.induct)
     (auto simp: addInput_def split: response.splits option.splits)

lemma fallback_inputs_outputs:
  "fallback_inputs e walletAddress u pay n = Inr sp \<Longrightarrow> psbt_outputs sp = []"
  by (auto simp: fallback_inputs_def Let_def fallback_loop_outputs addInput_def new_psbt_def
           split: sum.splits if_splits)

lemma fallback_assembly_result:
  assumes "fallback_assembly e walletAddress u pay n ws = Inr tx"
  shows "\<exists>out. psbt_outputs tx = [(walletAddress, out)]
           \<and> out = final_output (utxo_value u) (utxo_value u + n) n
           \<and> 546 \<le> out \<and> minRelayFee \<le> input_total tx - out
           \<and> extractTransaction e tx = None"
proof -
  let ?out = "final_output (utxo_value u) (utxo_value u + n) n"
  from assms obtain sp where fi: "fallback_inputs e walletAddress u pay n = Inr sp"
    by (auto simp: fallback_assembly_def split: sum.splits)
  from assms fi have chk: "check_amounts ''Fallback: '' ?out (input_total sp - ?out) = None"
    and tx: "tx = (addOutput walletAddress ?out sp)\<lparr>finalScriptWitness := Some ws\<rparr>"
    and ex: "extractTransaction e tx = None"
    by (auto simp: fallback_assembly_def Let_def split: option.splits)
  have sp: "psbt_outputs sp = []" using fi by (rule fallback_inputs_outputs)
  have "input_total tx = input_total sp" using tx by (simp add: input_total_def addOutput_def)
  moreover have "546 \<le> ?out" "minRelayFee \<le> input_total sp - ?out"
    using chk by (auto simp: check_amounts_def split: if_splits)
  moreover have "psbt_outputs tx = [(walletAddress, ?out)]"
    using tx sp by (simp add: addOutput_def)
  ultimately show ?thesis using ex by simp
qed

lemma unlock_try_sent:
  assumes "unlock_try e hw walletAddress script u wd = (res, Some tx)"
  shows "res = pushTx (broadcast_api e) tx
       \<and> (\<exists>out. psbt_outputs tx = [(walletAddress, out)]
              \<and> 546 \<le> out \<and> minRelayFee \<le> input_total tx - out)"
proof -
  let ?redeem = "buffer_from_hex (compiledScript script)"
  from assms obtain pay p n q where
    pa: "primary_assembly e walletAddress u ?redeem pay = Inr (p, n)"
    and sf: "sign_and_finalize e hw (originalScript script) n p
               (map witnessItem wd @ [?redeem]) = Inr q"
    and fin: "(case extractTransaction e q of
                 None \<Rightarrow> Inr q
               | Some x \<Rightarrow> fallback_assembly e walletAddress u pay n
                              (map witnessItem wd @ [?redeem])) = Inr tx"
    and res: "res = pushTx (broadcast_api e) tx"
    by (auto simp: unlock_try_def Let_def split: option.splits sum.splits if_splits prod.splits)
  show ?thesis
  proof (cases "extractTransaction e q")
    case None
    then have "tx = q" using fin by simp
    then have tx: "tx = p\<lparr>finalScriptWitness := Some (map witnessItem wd @ [?redeem])\<rparr>"
      using sign_and_finalize_result [OF sf] by simp
    from primary_assembly_result [OF pa]
    obtain out where "psbt_outputs p = [(walletAddress, out)]" "546 \<le> out"
      "minRelayFee \<le> input_total p - out"
      by blast
    then show ?thesis using tx res by (simp add: input_total_def)
  next
    case (Some x)
    then have "fallback_assembly e walletAddress u pay n (map witnessItem wd @ [?redeem]) = Inr tx"
      using fin by simp
    from fallback_assembly_result [OF this] res show ?thesis by auto
  qed
qed

lemma unlock_try_success:
  assumes "unlock_try e hw walletAddress script u wd = (Inr t, sent)"
  shows "\<exists>tx. sent = Some tx \<and> pushTx (broadcast_api e) tx = Inr t"
  using assms
  by (auto simp: unlock_try_def Let_def split: option.splits sum.splits if_splits prod.splits)

text \<open>
  C2. Whatever transaction \<^verbatim>\<open>unlockScript\<close> hands to \<^verbatim>\<open>pushTx\<close>, from the first
  assembly or from the second, has a single output of at least 546 satoshis and leaves a
  fee, its inputs' total minus that output, of at least \<open>minRelayFee\<close>; and an unlock
  is reported only when such a transaction was handed over and \<^verbatim>\<open>pushTx\<close> returned its
  id. So a failed check means no broadcast and a failed operation.
\<close>

theorem unlock_checks_before_broadcast:
  "(\<forall>tx. broadcast (unlockScript e wallet script witnessData w) = Some tx \<longrightarrow>
       (\<exists>addr out. psbt_outputs tx = [(addr, out)]
            \<and> 546 \<le> out \<and> minRelayFee \<le> input_total tx - out))
   \<and> (\<forall>t. outcome (unlockScript e wallet script witnessData w) = Unlocked t \<longrightarrow>
         (\<exists>tx. broadcast (unlockScript e wallet script witnessData w) = Some tx
               \<and> pushTx (broadcast_api e) tx = Inr t))"
proof (intro conjI allI impI)
  fix tx
  assume b: "broadcast (unlockScript e wallet script witnessData w) = Some tx"
  then obtain walletAddress u res where
    "unlock_try e (window_defined w) walletAddress script u witnessData = (res, Some tx)"
    by (auto simp: unlockScript_def split: option.splits list.splits if_splits prod.splits sum.splits)
  from unlock_try_sent [OF this]
  show "\<exists>addr out. psbt_outputs tx = [(addr, out)] \<and> 546 \<le> out \<and> minRelayFee \<le> input_total tx - out"
    by blast
next
  fix t
  assume o: "outcome (unlockScript e wallet script witnessData w) = Unlocked t"
  then obtain walletAddress u sent where
    r: "unlock_try e (window_defined w) walletAddress script u witnessData = (Inr t, sent)"
    and s: "broadcast (unlockScript e wallet script witnessData w) = sent"
    by (auto simp: unlockScript_def split: option.splits list.splits if_splits prod.splits sum.splits)
  from unlock_try_success [OF r] s
  show "\<exists>tx. broadcast (unlockScript e wallet script witnessData w) = Some tx
               \<and> pushTx (broadcast_api e) tx = Inr t"
    by auto
qed

section \<open>Registry writes\<close>

text \<open>
  C8. \<^verbatim>\<open>createScriptTransaction\<close> either throws and leaves the browser context as it
  was, or returns the id that \<^verbatim>\<open>pushTx\<close> returned for its transaction and has appended
  the tracked-script record. \<^verbatim>\<open>unlockScript\<close> either reports an unlock, with the id that
  \<^verbatim>\<open>pushTx\<close> returned for the transaction it sent and the script's records marked spent,
  or reports a failure and leaves the browser context as it was.
\<close>

theorem registry_only_after_broadcast:
  "(case createScriptTransaction e scriptCode amt walletAddress w of
      (Inl err, w') \<Rightarrow> w' = w
    | (Inr (t, a), w') \<Rightarrow>
        \<exists>tx compiled. pushTx (broadcast_api e) tx = Inr t
          \<and> w' = saveTrackedScript
                   \<lparr>script_id = t @ ''_0'', scriptAddress = a, originalScript = scriptCode,
                    compiledScript = to_hex compiled, createdAt = date_now e,
                    createdBy = walletAddress, fundingTxid = t, amount = amt,
                    isSpent = False\<rparr> w)
   \<and> (case outcome (unlockScript e wallet script witnessData w) of
        Unlocked t \<Rightarrow>
          (\<exists>tx. broadcast (unlockScript e wallet script witnessData w) = Some tx
                \<and> pushTx (broadcast_api e) tx = Inr t)
          \<and> world_after (unlockScript e wallet script witnessData w)
              = markScriptAsSpent (scriptAddress script) w
      | UnlockFailed err \<Rightarrow> world_after (unlockScript e wallet script witnessData w) = w
      | WalletNotConnected \<Rightarrow> world_after (unlockScript e wallet script witnessData w) = w
      | NoUtxosAtScript \<Rightarrow> world_after (unlockScript e wallet script witnessData w) = w)"
proof
  show "case createScriptTransaction e scriptCode amt walletAddress w of
      (Inl err, w') \<Rightarrow> w' = w
    | (Inr (t, a), w') \<Rightarrow>
        \<exists>tx compiled. pushTx (broadcast_api e) tx = Inr t
          \<and> w' = saveTrackedScript
                   \<lparr>script_id = t @ ''_0'', scriptAddress = a, originalScript = scriptCode,
                    compiledScript = to_hex compiled, createdAt = date_now e,
                    createdBy = walletAddress, fundingTxid = t, amount = amt,
                    isSpent = False\<rparr> w"
  proof (cases "funding_steps e (window_defined w) scriptCode amt walletAddress")
    case (Inl err)
    then show ?thesis by (simp add: createScriptTransaction_def)
  next
    case (Inr r)
    obtain compiled a tx t where r: "r = (compiled, a, tx, t)" by (cases r) auto
    have "pushTx (broadcast_api e) tx = Inr t"
      using Inr unfolding r funding_steps_def
      by (auto simp: Let_def split: sum.splits option.splits if_splits)
    then show ?thesis using Inr r by (auto simp: createScriptTransaction_def)
  qed
next
  let ?r = "unlockScript e wallet script witnessData w"
  show "case outcome ?r of
        Unlocked t \<Rightarrow>
          (\<exists>tx. broadcast ?r = Some tx \<and> pushTx (broadcast_api e) tx = Inr t)
          \<and> world_after ?r = markScriptAsSpent (scriptAddress script) w
      | UnlockFailed err \<Rightarrow> world_after ?r = w
      | WalletNotConnected \<Rightarrow> world_after ?r = w
      | NoUtxosAtScript \<Rightarrow> world_after ?r = w"
  proof (cases "outcome ?r")
    case (Unlocked t)
    then obtain walletAddress u sent where
      r: "unlock_try e (window_defined w) walletAddress script u witnessData = (Inr t, sent)"
      and s: "broadcast ?r = sent"
      and wa: "world_after ?r = markScriptAsSpent (scriptAddress script) w"
      by (auto simp: unlockScript_def split: option.splits list.splits if_splits prod.splits sum.splits)
    from unlock_try_success [OF r] s wa Unlocked show ?thesis by auto
  next
    case (UnlockFailed err)
    then show ?thesis
      by (auto simp: unlockScript_def split: option.splits list.splits if_splits prod.splits sum.splits)
  next
    case WalletNotConnected
    then show ?thesis
      by (auto simp: unlockScript_def split: option.splits list.splits if_splits prod.splits sum.splits)
  next
    case NoUtxosAtScript
    then show ?thesis
      by (auto simp: unlockScript_def split: option.splits list.splits if_splits prod.splits sum.splits)
  qed
qed

section \<open>Insufficient funds\<close>

lemma sum_values_take_le:
  assumes "\<forall>u \<in> set us. 0 \<le> utxo_value u"
  shows "sum_values (take n us) \<le> sum_values us"
proof -
  have "sum_values us = sum_values (take n us) + sum_values (drop n us)"
    unfolding sum_values_def by (metis append_take_drop_id map_append sum_list_append)
  moreover have "0 \<le> sum_values (drop n us)"
    unfolding sum_values_def using assms by (force intro!: sum_list_nonneg dest: in_set_dropD)
  ultimately show ?thesis by simp
qed

lemma selectUtxos_insufficient:
  assumes "\<forall>u \<in> set pool. 0 \<le> utxo_value u" "sum_values pool < target"
  shows "selectUtxos pool target = Inl (Error ''Insufficient UTXOs to cover the target amount'')"
proof -
  let ?s = "sortedUtxos pool"
  from select_loop_prefix [of ?s target "[]" 0]
  obtain n where run: "select_loop target ?s [] 0 = (take n ?s, sum_values (take n ?s))"
    by auto
  have "\<forall>u \<in> set ?s. 0 \<le> utxo_value u" using assms(1) by (simp add: sortedUtxos_def)
  then have "sum_values (take n ?s) \<le> sum_values ?s" by (rule sum_values_take_le)
  then have "sum_values (take n ?s) < target"
    using assms(2) by (simp add: sum_values_sortedUtxos)
  then show ?thesis using run by (simp add: selectUtxos_def)
qed

lemma includes_insufficient_funds:
  "sublist ''Insufficient funds'' (''Insufficient funds: have '' @ r)"
proof -
  have "''Insufficient funds: have '' @ r = [] @ ''Insufficient funds'' @ ('': have '' @ r)"
    by simp
  then show ?thesis by (simp only: sublist_appendI)
qed

text \<open>
  C4, amended. When the UTXOs (of non-negative value) total less than the target, the
  selector throws an error with the fixed message \<^verbatim>\<open>Insufficient UTXOs to cover the target
  amount\<close>. When the script compiles, its address is derived and the wallet's UTXOs, not
  none, total less than the amount plus the fee of 1000, the funding builder raises
  \<^verbatim>\<open>Insufficient funds: have <available>, need <required>\<close> inside, and its \<^verbatim>\<open>catch\<close>
  block replaces that by the fixed message \<^verbatim>\<open>Insufficient funds. Make sure you have
  enough testnet Bitcoin plus fee.\<close>, which is what the caller gets; nothing is saved.
\<close>

theorem insufficient_funds_errors:
  assumes "\<forall>u \<in> set pool. 0 \<le> utxo_value u"
      and "sum_values pool < target"
      and "parseScript (opcode_table e) (script_compile e) scriptCode = Inr compiled"
      and "p2wsh e compiled = Inr pay"
      and "pay_address pay = Some address"
      and "address \<noteq> []"
      and "getUtxos (utxo_api e) walletAddress = Inr available"
      and "available \<noteq> []"
      and "sum_values available < amt + 1000"
  shows "selectUtxos pool target = Inl (Error ''Insufficient UTXOs to cover the target amount'')
       \<and> funding_steps e (window_defined w) scriptCode amt walletAddress
           = Inl (Error (''Insufficient funds: have '' @ show_int (sum_values available)
                         @ '', need '' @ show_int (amt + 1000)))
       \<and> createScriptTransaction e scriptCode amt walletAddress w
           = (Inl (Error ''Insufficient funds. Make sure you have enough testnet Bitcoin plus fee.''),
              w)"
proof -
  have f: "funding_steps e (window_defined w) scriptCode amt walletAddress
           = Inl (Error (''Insufficient funds: have '' @ show_int (sum_values available)
                         @ '', need '' @ show_int (amt + 1000)))"
    using assms(3-9) by (simp add: funding_steps_def Let_def)
  have "funding_catch (Error (''Insufficient funds: have '' @ show_int (sum_values available)
                         @ '', need '' @ show_int (amt + 1000)))
        = Error ''Insufficient funds. Make sure you have enough testnet Bitcoin plus fee.''"
    unfolding funding_catch_def using includes_insufficient_funds by simp
  then show ?thesis
    using f selectUtxos_insufficient [OF assms(1,2)] by (simp add: createScriptTransaction_def)
qed

section \<open>Examples\<close>

lemmas sample_defs =
  sample_env_def sample_env_fallback_def sample_env_rejecting_def sample_utxo_def
  sample_script_def sample_world_def sample_record_def sample_payment_def

lemma show_int_samples:
  "show_int 400 = ''400''" "show_int 900 = ''900''" "show_int 1000 = ''1000''"
  by code_simp+

lemma show_int_more:
  "show_int 1900 = ''1900''" "show_int 300 = ''300''"
  by code_simp+

lemma no_signature_needed: "\<not> scriptNeedsSignatures ''OP_TRUE''"
  by code_simp

lemmas unlock_eval =
  unlockScript_def unlock_try_def primary_assembly_def sponsor_def needsWalletSponsorship_def
  final_output_def check_amounts_def sign_and_finalize_def no_signature_needed
  fallback_assembly_def fallback_inputs_def estimatedFee_def minRelayFee_def
  getUtxos_def pushTx_def output_script_def addInput_def addOutput_def new_psbt_def
  input_total_def markScriptAsSpent_def getTrackedScripts_def hex_value_def code_unit_def
  witnessItem_def all_digits_def is_digit_def buffer_from_utf8_def spent_utxos_def
  sum_values_def Let_def show_int_samples show_int_more





lemma unlock_sample_5000:
  "unlockScript (sample_env []) (Some ''tb1qwallet'') (sample_script 5000) [] sample_world
     = \<lparr>outcome = Unlocked ''u1'',
        broadcast = Some \<lparr>psbt_inputs = [\<lparr>prevout = sample_utxo ''f1'' 5000,
                                            prevout_script = [0, 32, 81],
                                            witnessScript = Some [81]\<rparr>],
                          psbt_outputs = [(''tb1qwallet'', 3500)],
                          finalScriptWitness = Some [[81]]\<rparr>,
        world_after = \<lparr>window_defined = True,
                       tracked_item = Saved [sample_record ''f1_0'' ''tb1qscript'' True]\<rparr>\<rparr>"
  by (simp add: sample_defs unlock_eval)

lemma unlock_sample_fallback:
  "unlockScript (sample_env_fallback [sample_utxo ''w1'' 3000]) (Some ''tb1qwallet'')
       (sample_script 400) [''hello''] sample_world
     = \<lparr>outcome = Unlocked ''u1'',
        broadcast = Some \<lparr>psbt_inputs = [\<lparr>prevout = sample_utxo ''f1'' 400,
                                            prevout_script = [0, 32, 81],
                                            witnessScript = None\<rparr>,
                                         \<lparr>prevout = sample_utxo ''w1'' 3000,
                                            prevout_script = [0, 20, 171],
                                            witnessScript = None\<rparr>],
                          psbt_outputs = [(''tb1qwallet'', 1900)],
                          finalScriptWitness = Some [[104, 101, 108, 108, 111], [81]]\<rparr>,
        world_after = \<lparr>window_defined = True,
                       tracked_item = Saved [sample_record ''f1_0'' ''tb1qscript'' True]\<rparr>\<rparr>"
  by (simp add: sample_defs unlock_eval)

lemma unlock_sample_short:
  "unlockScript (sample_env [sample_utxo ''w1'' 600]) (Some ''tb1qwallet'') (sample_script 400) []
       sample_world
     = \<lparr>outcome = UnlockFailed (Error ''Insufficient funds: need 1900 sats, have 1000 sats''),
        broadcast = None, world_after = sample_world\<rparr>"
  by (simp add: sample_defs unlock_eval)

lemma unlock_sample_rejected:
  "unlockScript (sample_env_rejecting []) (Some ''tb1qwallet'') (sample_script 5000) []
       sample_world
     = \<lparr>outcome = UnlockFailed (Error ''Failed to broadcast transaction: 400 bad-txns''),
        broadcast = Some \<lparr>psbt_inputs = [\<lparr>prevout = sample_utxo ''f1'' 5000,
                                            prevout_script = [0, 32, 81],
                                            witnessScript = Some [81]\<rparr>],
                          psbt_outputs = [(''tb1qwallet'', 3500)],
                          finalScriptWitness = Some [[81]]\<rparr>,
        world_after = sample_world\<rparr>"
  by (simp add: sample_defs unlock_eval)

text \<open>
  An unlock through the first assembly, one through the second, and one that fails before
  any broadcast.
\<close>

theorem unlock_checks_before_broadcast_witness:
  "broadcast (unlockScript (sample_env []) (Some ''tb1qwallet'') (sample_script 5000) []
                sample_world)
     = Some \<lparr>psbt_inputs = [\<lparr>prevout = sample_utxo ''f1'' 5000, prevout_script = [0, 32, 81],
                                witnessScript = Some [81]\<rparr>],
              psbt_outputs = [(''tb1qwallet'', 3500)], finalScriptWitness = Some [[81]]\<rparr>
   \<and> outcome (unlockScript (sample_env []) (Some ''tb1qwallet'') (sample_script 5000) []
                sample_world) = Unlocked ''u1''
   \<and> broadcast (unlockScript (sample_env_fallback [sample_utxo ''w1'' 3000]) (Some ''tb1qwallet'')
                  (sample_script 400) [''hello''] sample_world)
     = Some \<lparr>psbt_inputs = [\<lparr>prevout = sample_utxo ''f1'' 400, prevout_script = [0, 32, 81],
                                witnessScript = None\<rparr>,
                             \<lparr>prevout = sample_utxo ''w1'' 3000, prevout_script = [0, 20, 171],
                                witnessScript = None\<rparr>],
              psbt_outputs = [(''tb1qwallet'', 1900)],
              finalScriptWitness = Some [[104, 101, 108, 108, 111], [81]]\<rparr>
   \<and> outcome (unlockScript (sample_env [sample_utxo ''w1'' 600]) (Some ''tb1qwallet'')
                (sample_script 400) [] sample_world)
     = UnlockFailed (Error ''Insufficient funds: need 1900 sats, have 1000 sats'')
   \<and> broadcast (unlockScript (sample_env [sample_utxo ''w1'' 600]) (Some ''tb1qwallet'')
                (sample_script 400) [] sample_world) = None"
  using unlock_checks_before_broadcast [of "sample_env []" "Some ''tb1qwallet''" "sample_script 5000"
          "[]" sample_world]
    unlock_checks_before_broadcast [of "sample_env_fallback [sample_utxo ''w1'' 3000]"
          "Some ''tb1qwallet''" "sample_script 400" "[''hello'']" sample_world]
  by (simp add: unlock_sample_5000 unlock_sample_fallback unlock_sample_short)

lemma to_hex_sample: "to_hex [81] = ''51''"
  by code_simp

lemma parse_sample:
  "parseScript (opcode_table (sample_env wallet)) (script_compile (sample_env wallet)) ''OP_TRUE''
     = Inr [81]"
  by (simp add: parseScript_def source_lines_def trim_def is_space_def code_unit_def
        parseLine_def sample_env_def)

lemmas funding_eval =
  createScriptTransaction_def funding_steps_def parseScript_def source_lines_def trim_def
  is_space_def code_unit_def parseLine_def getUtxos_def pushTx_def selectUtxos_def
  sortedUtxos_def sum_values_def resolve_input_def output_script_def hex_value_def
  addInput_def addOutput_def new_psbt_def saveTrackedScript_def getTrackedScripts_def
  funding_catch_def Let_def to_hex_sample show_int_samples

lemma funding_sample:
  "createScriptTransaction (sample_env [sample_utxo ''w1'' 10000]) ''OP_TRUE'' 5000 ''tb1qwallet''
       sample_world
     = (Inr (''u1'', ''tb1qscript''),
        \<lparr>window_defined = True,
         tracked_item = Saved [sample_record ''f1_0'' ''tb1qscript'' False,
                               \<lparr>script_id = ''u1_0'', scriptAddress = ''tb1qscript'',
                                originalScript = ''OP_TRUE'', compiledScript = ''51'',
                                createdAt = 0, createdBy = ''tb1qwallet'',
                                fundingTxid = ''u1'', amount = 5000, isSpent = False\<rparr>]\<rparr>)"
  by (simp add: sample_defs funding_eval)

lemma includes_failed_to_broadcast:
  "sublist ''Failed to broadcast'' ''Failed to broadcast transaction: 400 bad-txns''"
  "\<not> sublist ''Insufficient funds'' ''Failed to broadcast transaction: 400 bad-txns''"
  "\<not> sublist ''Unknown opcode'' ''Failed to broadcast transaction: 400 bad-txns''"
  "\<not> sublist ''Failed to fetch UTXOs'' ''Failed to broadcast transaction: 400 bad-txns''"
  by code_simp+

lemma funding_sample_rejected:
  "createScriptTransaction (sample_env_rejecting [sample_utxo ''w1'' 10000]) ''OP_TRUE'' 5000
       ''tb1qwallet'' sample_world
     = (Inl (Error ''Failed to broadcast transaction. The transaction may be invalid.''),
        sample_world)"
  using includes_failed_to_broadcast by (simp add: sample_defs funding_eval)

text \<open>
  A funding and an unlock that are broadcast, and the same two with the broadcast
  rejected: the registry then stays as it was.
\<close>

theorem registry_only_after_broadcast_witness:
  "createScriptTransaction (sample_env [sample_utxo ''w1'' 10000]) ''OP_TRUE'' 5000 ''tb1qwallet''
       sample_world
     = (Inr (''u1'', ''tb1qscript''),
        \<lparr>window_defined = True,
         tracked_item = Saved [sample_record ''f1_0'' ''tb1qscript'' False,
                               \<lparr>script_id = ''u1_0'', scriptAddress = ''tb1qscript'',
                                originalScript = ''OP_TRUE'', compiledScript = ''51'',
                                createdAt = 0, createdBy = ''tb1qwallet'',
                                fundingTxid = ''u1'', amount = 5000, isSpent = False\<rparr>]\<rparr>)
   \<and> createScriptTransaction (sample_env_rejecting [sample_utxo ''w1'' 10000]) ''OP_TRUE'' 5000
       ''tb1qwallet'' sample_world
     = (Inl (Error ''Failed to broadcast transaction. The transaction may be invalid.''),
        sample_world)
   \<and> unlockScript (sample_env []) (Some ''tb1qwallet'') (sample_script 5000) [] sample_world
     = \<lparr>outcome = Unlocked ''u1'',
        broadcast = Some \<lparr>psbt_inputs = [\<lparr>prevout = sample_utxo ''f1'' 5000,
                                            prevout_script = [0, 32, 81],
                                            witnessScript = Some [81]\<rparr>],
                          psbt_outputs = [(''tb1qwallet'', 3500)],
                          finalScriptWitness = Some [[81]]\<rparr>,
        world_after = \<lparr>window_defined = True,
                       tracked_item = Saved [sample_record ''f1_0'' ''tb1qscript'' True]\<rparr>\<rparr>
   \<and> unlockScript (sample_env_rejecting []) (Some ''tb1qwallet'') (sample_script 5000) []
       sample_world
     = \<lparr>outcome = UnlockFailed (Error ''Failed to broadcast transaction: 400 bad-txns''),
        broadcast = Some \<lparr>psbt_inputs = [\<lparr>prevout = sample_utxo ''f1'' 5000,
                                            prevout_script = [0, 32, 81],
                                            witnessScript = Some [81]\<rparr>],
                          psbt_outputs = [(''tb1qwallet'', 3500)],
                          finalScriptWitness = Some [[81]]\<rparr>,
        world_after = sample_world\<rparr>"
  using registry_only_after_broadcast [where e = "sample_env [sample_utxo ''w1'' 10000]"
          and scriptCode = "''OP_TRUE''" and amt = 5000 and walletAddress = "''tb1qwallet''"
          and w = sample_world and wallet = "Some ''tb1qwallet''"
          and script = "sample_script 5000" and witnessData = "[]"]
  by (simp add: funding_sample funding_sample_rejected unlock_sample_5000 unlock_sample_rejected)

lemma funding_sample_insufficient:
  "getUtxos (utxo_api (sample_env [sample_utxo ''w1'' 900])) ''tb1qwallet''
     = Inr [sample_utxo ''w1'' 900]"
  "p2wsh (sample_env [sample_utxo ''w1'' 900]) [81] = Inr sample_payment"
  "pay_address sample_payment = Some ''tb1qscript''"
  "sum_values [sample_utxo ''w1'' 900] = 900"
  "sum_values [sample_utxo ''a'' 600, sample_utxo ''b'' 300] = 900"
  by (simp_all add: sample_defs getUtxos_def sum_values_def)

text \<open>
  UTXOs of 600 and 300 against a target of 1000, and a wallet holding 900 asked to lock
  0 satoshis plus the fee of 1000.
\<close>

theorem insufficient_funds_errors_witness:
  "sum_values [sample_utxo ''a'' 600, sample_utxo ''b'' 300] < 1000
   \<and> selectUtxos [sample_utxo ''a'' 600, sample_utxo ''b'' 300] 1000
       = Inl (Error ''Insufficient UTXOs to cover the target amount'')
   \<and> sum_values [sample_utxo ''w1'' 900] < 0 + 1000
   \<and> funding_steps (sample_env [sample_utxo ''w1'' 900]) (window_defined sample_world)
         ''OP_TRUE'' 0 ''tb1qwallet''
       = Inl (Error ''Insufficient funds: have 900, need 1000'')
   \<and> createScriptTransaction (sample_env [sample_utxo ''w1'' 900]) ''OP_TRUE'' 0 ''tb1qwallet''
         sample_world
       = (Inl (Error ''Insufficient funds. Make sure you have enough testnet Bitcoin plus fee.''),
          sample_world)"
  using insufficient_funds_errors [of "[sample_utxo ''a'' 600, sample_utxo ''b'' 300]" 1000
          "sample_env [sample_utxo ''w1'' 900]" "''OP_TRUE''" "[81]" sample_payment
          "''tb1qscript''" "''tb1qwallet''" "[sample_utxo ''w1'' 900]" 0 sample_world]
  by (simp add: parse_sample funding_sample_insufficient show_int_samples)
     (simp add: sample_utxo_def)

lemma no_amounts_in_messages:
  "\<not> sublist ''900'' ''Insufficient UTXOs to cover the target amount''"
  "\<not> sublist ''1000'' ''Insufficient UTXOs to cover the target amount''"
  "\<not> sublist ''900'' ''Insufficient funds. Make sure you have enough testnet Bitcoin plus fee.''"
  "\<not> sublist ''1000'' ''Insufficient funds. Make sure you have enough testnet Bitcoin plus fee.''"
  by code_simp+

text \<open>
  C4 as stated fails for a wallet holding 900 and a target of 1000: neither the
  selector's message nor the one the funding builder throws contains 900 or 1000.
\<close>

theorem insufficient_funds_counterexample:
  "sum_values [sample_utxo ''w1'' 900] = 900
   \<and> selectUtxos [sample_utxo ''w1'' 900] 1000
       = Inl (Error ''Insufficient UTXOs to cover the target amount'')
   \<and> \<not> sublist ''900'' ''Insufficient UTXOs to cover the target amount''
   \<and> \<not> sublist ''1000'' ''Insufficient UTXOs to cover the target amount''
   \<and> createScriptTransaction (sample_env [sample_utxo ''w1'' 900]) ''OP_TRUE'' 0 ''tb1qwallet''
         sample_world
       = (Inl (Error ''Insufficient funds. Make sure you have enough testnet Bitcoin plus fee.''),
          sample_world)
   \<and> \<not> sublist ''900'' ''Insufficient funds. Make sure you have enough testnet Bitcoin plus fee.''
   \<and> \<not> sublist ''1000'' ''Insufficient funds. Make sure you have enough testnet Bitcoin plus fee.''"
proof -
  have "sublist ''Insufficient funds'' ''Insufficient funds: have 900, need 1000''"
    by code_simp
  then have "createScriptTransaction (sample_env [sample_utxo ''w1'' 900]) ''OP_TRUE'' 0
         ''tb1qwallet'' sample_world
       = (Inl (Error ''Insufficient funds. Make sure you have enough testnet Bitcoin plus fee.''),
          sample_world)"
    by (simp add: sample_defs funding_eval)
  moreover have "selectUtxos [sample_utxo ''w1'' 900] 1000
       = Inl (Error ''Insufficient UTXOs to cover the target amount'')"
    by (simp add: selectUtxos_def sortedUtxos_def sample_utxo_def)
  ultimately show ?thesis
    using no_amounts_in_messages by (simp add: sum_values_def sample_utxo_def)
qed

text \<open>
  The specification's example: of 500, 300, 200 and 100 with target 450 only 500 is
  selected; and an unsorted list with target 700.
\<close>

theorem selectUtxos_shortest_prefix_witness:
  "450 \<le> sum_values [sample_utxo ''a'' 500, sample_utxo ''b'' 300, sample_utxo ''c'' 200,
                        sample_utxo ''d'' 100]
   \<and> selectUtxos [sample_utxo ''a'' 500, sample_utxo ''b'' 300, sample_utxo ''c'' 200,
                   sample_utxo ''d'' 100] 450
       = Inr \<lparr>selectedUtxos = [sample_utxo ''a'' 500], totalValue = 500\<rparr>
   \<and> selectUtxos [sample_utxo ''d'' 100, sample_utxo ''b'' 300, sample_utxo ''a'' 500,
                   sample_utxo ''c'' 200] 700
       = Inr \<lparr>selectedUtxos = [sample_utxo ''a'' 500, sample_utxo ''b'' 300], totalValue = 800\<rparr>"
  using selectUtxos_shortest_prefix [of 450 "[sample_utxo ''a'' 500, sample_utxo ''b'' 300,
          sample_utxo ''c'' 200, sample_utxo ''d'' 100]"]
  by (simp add: selectUtxos_def sortedUtxos_def sum_values_def sample_utxo_def)

text \<open>
  Two records of the same script address and one of another.
\<close>

theorem markScriptAsSpent_frame_witness:
  "getTrackedScripts
     (markScriptAsSpent ''tb1qscript''
        \<lparr>window_defined = True,
         tracked_item = Saved [sample_record ''f1_0'' ''tb1qscript'' False,
                               sample_record ''f2_0'' ''tb1qother'' False,
                               sample_record ''f3_0'' ''tb1qscript'' False]\<rparr>)
   = [sample_record ''f1_0'' ''tb1qscript'' True,
      sample_record ''f2_0'' ''tb1qother'' False,
      sample_record ''f3_0'' ''tb1qscript'' True]"
  using markScriptAsSpent_frame [of "''tb1qscript''"
          "\<lparr>window_defined = True,
            tracked_item = Saved [sample_record ''f1_0'' ''tb1qscript'' False,
                                  sample_record ''f2_0'' ''tb1qother'' False,
                                  sample_record ''f3_0'' ''tb1qscript'' False]\<rparr>"]
  by (simp add: markScriptAsSpent_def getTrackedScripts_def sample_record_def)

text \<open>
  Marking the sample script twice.
\<close>

theorem markScriptAsSpent_idempotent_witness:
  "markScriptAsSpent ''tb1qscript'' (markScriptAsSpent ''tb1qscript'' sample_world)
     = \<lparr>window_defined = True,
        tracked_item = Saved [sample_record ''f1_0'' ''tb1qscript'' True]\<rparr>"
  using markScriptAsSpent_idempotent [of "''tb1qscript''" sample_world "''tb1qwallet''"]
  by (simp add: markScriptAsSpent_def getTrackedScripts_def sample_record_def sample_world_def)

end
